theory Spec2Isabelle
  imports Complex_Main "HOL-Library.AList" "HOL-Library.Log_Nat"
begin

section \<open>DOM elements\<close>

text \<open>
  The scripts only ever write three things of an element: its text, its markup and its
  class list. A missing element (\<open>getElementById\<close> returning \<open>null\<close>) is \<open>None\<close>.
\<close>

record element =
  textContent :: string
  innerHTML :: string
  classList :: "string list"

definition classList_add :: "string \<Rightarrow> element \<Rightarrow> element" where
  "classList_add c e =
     (if c \<in> set (classList e) then e else e\<lparr>classList := classList e @ [c]\<rparr>)"

definition classList_remove :: "string \<Rightarrow> element \<Rightarrow> element" where
  "classList_remove c e = e\<lparr>classList := removeAll c (classList e)\<rparr>"

text \<open>Decimal rendering of a counter, as assigning a number to \<open>textContent\<close> does.\<close>

definition digit_char :: "nat \<Rightarrow> char" where
  "digit_char d = char_of (48 + d)"

fun show_nat :: "nat \<Rightarrow> string" where
  "show_nat n = (if n < 10 then [digit_char n] else show_nat (n div 10) @ [digit_char (n mod 10)])"

declare show_nat.simps [simp del]

section \<open>JavaScript numbers\<close>

text \<open>
  A JavaScript number is an IEEE 754 double: the result of an arithmetic operation is
  the exact result rounded to the nearest number with a significand of 53 bits, a tie
  going to the even significand; a numeric literal denotes the double nearest to it.
  A finite number is kept as the rational it is. \<open>round_even\<close> rounds to the nearest
  integer, \<open>ilog2 x\<close> is the exponent \<open>e\<close> with \<open>2\<^sup>e \<le> x < 2\<^sup>e\<^sup>+\<^sup>1\<close>, and \<open>fl x\<close> is the double
  nearest to \<open>x\<close>. The range of the exponent is not modelled: nothing overflows, and
  there are no subnormal numbers.
\<close>

definition round_even :: "rat \<Rightarrow> int" where
  "round_even x =
     (let f = \<lfloor>x\<rfloor>; d = x - of_int f
      in if d < 1 / 2 then f else if 1 / 2 < d then f + 1 else if even f then f else f + 1)"

definition ilog2 :: "rat \<Rightarrow> int" where
  "ilog2 x =
     (let d = bitlen (fst (quotient_of x)) - bitlen (snd (quotient_of x))
      in if 2 powi d \<le> x then d else d - 1)"

definition fl :: "rat \<Rightarrow> rat" where
  "fl x =
     (if x = 0 then 0
      else let e = ilog2 \<bar>x\<bar> - 52 in of_int (round_even (x / 2 powi e)) * 2 powi e)"

text \<open>
  The numbers that arise from two counters: a finite one, \<open>Infinity\<close> and \<open>NaN\<close>. A
  counter is a whole number that starts at 0 and is incremented; below \<open>2\<^sup>5\<^sup>3\<close> a double
  holds it exactly, and it is kept as a natural number.
\<close>

datatype jsnum = Finite rat | PosInfinity | NaN

text \<open>\<open>a / b\<close> of two counters: a division by zero gives \<open>Infinity\<close> or \<open>NaN\<close>, it does not fail.\<close>

definition js_div :: "nat \<Rightarrow> nat \<Rightarrow> jsnum" where
  "js_div a b =
     (if b = 0 then (if a = 0 then NaN else PosInfinity)
      else Finite (fl (of_nat a / of_nat b)))"

text \<open>\<open>x * r\<close> for a positive finite \<open>r\<close>, and \<open>Math.round\<close>, which takes a half up.\<close>

fun js_times :: "jsnum \<Rightarrow> rat \<Rightarrow> jsnum" where
  "js_times (Finite q) r = Finite (fl (q * r))"
| "js_times PosInfinity r = PosInfinity"
| "js_times NaN r = NaN"

fun Math_round :: "jsnum \<Rightarrow> jsnum" where
  "Math_round (Finite q) = Finite (of_int \<lfloor>q + 1 / 2\<rfloor>)"
| "Math_round PosInfinity = PosInfinity"
| "Math_round NaN = NaN"

text \<open>\<open>x >= r\<close> and \<open>x === r\<close> for a finite \<open>r\<close>; every comparison with \<open>NaN\<close> is false.\<close>

fun js_ge :: "jsnum \<Rightarrow> rat \<Rightarrow> bool" where
  "js_ge (Finite q) r = (r \<le> q)"
| "js_ge PosInfinity r = True"
| "js_ge NaN r = False"

fun js_eq :: "jsnum \<Rightarrow> rat \<Rightarrow> bool" where
  "js_eq (Finite q) r = (q = r)"
| "js_eq PosInfinity r = False"
| "js_eq NaN r = False"

text \<open>
  \<open>Math.round((c / n) * 100)\<close> as a function of the exact quotient \<open>c / n\<close>; and
  \<open>margin b\<close>, a distance that a fraction \<open>c / n\<close> with \<open>n \<le> 2\<^sup>4\<^sup>0\<close> keeps from every
  fraction \<open>a / b\<close> other than itself.
\<close>

definition rounded_percent :: "rat \<Rightarrow> int" where
  "rounded_percent x = \<lfloor>fl (fl x * 100) + 1 / 2\<rfloor>"

definition margin :: "nat \<Rightarrow> rat" where
  "margin b = 1 / (of_nat b * 2 ^ 40)"

section \<open>The Pre-K ActivityBase (round and score bookkeeping)\<close>

text \<open>
  \<open>setTimeout\<close> callbacks are kept as a list of pending timers; nothing in the class
  ever cancels one.
\<close>

datatype timer = AutoAdvance nat | HideFeedback nat

record activity =
  maxRounds :: nat
  autoAdvanceDelay :: nat
  activityName :: string
  round_no :: nat
  correctCount :: nat
  wrongCount :: nat
  isComplete :: bool
  progress :: "element option"
  feedback :: "element option"
  statsOverlay :: "element option"
  statsCorrect :: "element option"
  statsWrong :: "element option"
  statsIcon :: "element option"
  statsMessage :: "element option"
  timers :: "timer list"

text \<open>
  The constructor: \<open>config.maxRounds || 5\<close> and \<open>config.autoAdvanceDelay || 1500\<close>
  replace a missing or zero value by the default; the DOM references start as \<open>null\<close>.
\<close>

definition new_activity :: "nat option \<Rightarrow> nat option \<Rightarrow> string option \<Rightarrow> activity" where
  "new_activity cfgRounds cfgDelay cfgName =
     \<lparr> maxRounds = (case cfgRounds of None \<Rightarrow> 5 | Some n \<Rightarrow> if n = 0 then 5 else n),
       autoAdvanceDelay = (case cfgDelay of None \<Rightarrow> 1500 | Some n \<Rightarrow> if n = 0 then 1500 else n),
       activityName = (case cfgName of None \<Rightarrow> ''activity'' | Some n \<Rightarrow> if n = [] then ''activity'' else n),
       round_no = 1, correctCount = 0, wrongCount = 0, isComplete = False,
       progress = None, feedback = None, statsOverlay = None, statsCorrect = None,
       statsWrong = None, statsIcon = None, statsMessage = None, timers = [] \<rparr>"

subsection \<open>renderProgress\<close>

definition className :: "activity \<Rightarrow> nat \<Rightarrow> string" where
  "className s i =
     (if i < round_no s then ''progress-dot'' @ '' completed''
      else if i = round_no s then ''progress-dot'' @ '' current''
      else ''progress-dot'')"

definition dot_html :: "string \<Rightarrow> string" where
  "dot_html c = ''<div class=\"'' @ c @ ''\"></div>''"

function renderProgress_loop :: "activity \<Rightarrow> nat \<Rightarrow> string \<Rightarrow> string" where
  "renderProgress_loop s i html =
     (if i \<le> maxRounds s
      then renderProgress_loop s (Suc i) (html @ dot_html (className s i))
      else html)"
  by pat_completeness auto
termination
  by (relation "measure (\<lambda>(s, i, html). Suc (maxRounds s) - i)") auto

declare renderProgress_loop.simps [simp del]

definition renderProgress :: "activity \<Rightarrow> activity" where
  "renderProgress s =
     (case progress s of
        None \<Rightarrow> s
      | Some p \<Rightarrow> s\<lparr>progress := Some (p\<lparr>innerHTML := renderProgress_loop s 1 []\<rparr>)\<rparr>)"

subsection \<open>Feedback\<close>

definition showFeedback :: "string \<Rightarrow> bool \<Rightarrow> nat \<Rightarrow> activity \<Rightarrow> activity" where
  "showFeedback message isError duration s =
     (case feedback s of
        None \<Rightarrow> s
      | Some f \<Rightarrow>
          let f1 = classList_remove ''error'' (f\<lparr>textContent := message\<rparr>);
              f2 = (if isError then classList_add ''error'' f1 else f1);
              f3 = classList_add ''show'' f2;
              s1 = s\<lparr>feedback := Some f3\<rparr>
          in if duration > 0 then s1\<lparr>timers := timers s1 @ [HideFeedback duration]\<rparr> else s1)"

definition hideFeedback :: "activity \<Rightarrow> activity" where
  "hideFeedback s =
     (case feedback s of
        None \<Rightarrow> s
      | Some f \<Rightarrow> s\<lparr>feedback := Some (classList_remove ''show'' f)\<rparr>)"

subsection \<open>Recording answers\<close>

text \<open>
  \<open>message\<close> is the optional feedback text; \<open>if (message)\<close> is false for \<open>null\<close>
  and for the empty string.
\<close>

definition recordCorrect :: "string option \<Rightarrow> activity \<Rightarrow> activity" where
  "recordCorrect message s =
     (let s1 = s\<lparr>correctCount := correctCount s + 1, isComplete := True\<rparr>;
          s2 = (case message of
                  None \<Rightarrow> s1
                | Some m \<Rightarrow> if m = [] then s1 else showFeedback m False (autoAdvanceDelay s1) s1)
      in s2\<lparr>timers := timers s2 @ [AutoAdvance (autoAdvanceDelay s2)]\<rparr>)"

definition recordWrong :: "string option \<Rightarrow> activity \<Rightarrow> activity" where
  "recordWrong message s =
     (let s1 = s\<lparr>wrongCount := wrongCount s + 1\<rparr>
      in case message of
           None \<Rightarrow> s1
         | Some m \<Rightarrow> if m = [] then s1 else showFeedback m True 2000 s1)"

subsection \<open>The completion summary\<close>

text \<open>
  \<open>percent\<close> is the quotient \<open>correctCount / maxRounds\<close> as a number, compared with the
  numbers that the literals \<open>0.8\<close> and \<open>0.6\<close> denote.
\<close>

text \<open>The three icons, by their UTF-8 bytes: U+1F31F glowing star, U+1F389 party popper, U+1F44D thumbs up.\<close>

definition icon_star :: string where
  "icon_star = [CHR 0xF0, CHR 0x9F, CHR 0x8C, CHR 0x9F]"

definition icon_party :: string where
  "icon_party = [CHR 0xF0, CHR 0x9F, CHR 0x8E, CHR 0x89]"

definition icon_thumbs :: string where
  "icon_thumbs = [CHR 0xF0, CHR 0x9F, CHR 0x91, CHR 0x8D]"

definition messages :: "(string \<times> string) list" where
  "messages =
     [(''excellent'', ''Amazing! You did great!''),
      (''good'', ''Great job!''),
      (''tryAgain'', ''Good effort! Try again!'')]"

definition getStatsMessage :: "string \<Rightarrow> string" where
  "getStatsMessage level =
     (case map_of messages level of
        Some m \<Rightarrow> m
      | None \<Rightarrow> ''Good effort! Try again!'')"

definition set_text :: "string \<Rightarrow> element option \<Rightarrow> element option" where
  "set_text t e = map_option (\<lambda>x. x\<lparr>textContent := t\<rparr>) e"

definition showStats :: "activity \<Rightarrow> activity" where
  "showStats s =
     (case statsOverlay s of
        None \<Rightarrow> s
      | Some ov \<Rightarrow>
          let s1 = s\<lparr>statsCorrect := set_text (show_nat (correctCount s)) (statsCorrect s)\<rparr>;
              s2 = s1\<lparr>statsWrong := set_text (show_nat (wrongCount s1)) (statsWrong s1)\<rparr>;
              percent = js_div (correctCount s2) (maxRounds s2);
              s3 = (if statsIcon s2 \<noteq> None \<and> statsMessage s2 \<noteq> None then
                      (if js_ge percent (fl (8 / 10)) then
                         s2\<lparr>statsIcon := set_text icon_star (statsIcon s2),
                            statsMessage := set_text (getStatsMessage ''excellent'') (statsMessage s2)\<rparr>
                       else if js_ge percent (fl (6 / 10)) then
                         s2\<lparr>statsIcon := set_text icon_party (statsIcon s2),
                            statsMessage := set_text (getStatsMessage ''good'') (statsMessage s2)\<rparr>
                       else
                         s2\<lparr>statsIcon := set_text icon_thumbs (statsIcon s2),
                            statsMessage := set_text (getStatsMessage ''tryAgain'') (statsMessage s2)\<rparr>)
                    else s2)
          in s3\<lparr>statsOverlay := Some (classList_add ''show'' ov)\<rparr>)"

subsection \<open>Advancing and restarting\<close>

text \<open>
  \<open>startRound\<close> is abstract in the base class (it throws unless a subclass overrides
  it), so the operations that call it take the subclass's \<open>startRound\<close> as a parameter.
\<close>

definition nextRound :: "(activity \<Rightarrow> activity) \<Rightarrow> activity \<Rightarrow> activity" where
  "nextRound startRound s = startRound (s\<lparr>round_no := round_no s + 1, isComplete := False\<rparr>)"

definition restartActivity :: "(activity \<Rightarrow> activity) \<Rightarrow> activity \<Rightarrow> activity" where
  "restartActivity startRound s =
     (let s1 = s\<lparr>round_no := 1, correctCount := 0, wrongCount := 0, isComplete := False\<rparr>;
          s2 = s1\<lparr>statsOverlay := map_option (classList_remove ''show'') (statsOverlay s1)\<rparr>
      in startRound s2)"

text \<open>The body of the auto-advance callback that \<open>recordCorrect\<close> schedules.\<close>

definition autoAdvance_callback :: "(activity \<Rightarrow> activity) \<Rightarrow> activity \<Rightarrow> activity" where
  "autoAdvance_callback startRound s =
     (if round_no s < maxRounds s then nextRound startRound s else showStats s)"

subsection \<open>Events of an activity session\<close>

text \<open>
  What can happen to an activity object: the hosting game reports an answer, a pending
  timer fires (the \<open>k\<close>-th one, in any order), the host advances the round itself, or the
  player restarts.
\<close>

datatype event = RecordCorrect "string option" | RecordWrong "string option"
  | Timeout nat | NextRound | RestartActivity

definition fire_timer :: "(activity \<Rightarrow> activity) \<Rightarrow> nat \<Rightarrow> activity \<Rightarrow> activity" where
  "fire_timer startRound k s =
     (if k < length (timers s) then
        (let s1 = s\<lparr>timers := take k (timers s) @ drop (Suc k) (timers s)\<rparr>
         in case timers s ! k of
              AutoAdvance d \<Rightarrow> autoAdvance_callback startRound s1
            | HideFeedback d \<Rightarrow> hideFeedback s1)
      else s)"

fun step :: "(activity \<Rightarrow> activity) \<Rightarrow> event \<Rightarrow> activity \<Rightarrow> activity" where
  "step startRound (RecordCorrect m) s = recordCorrect m s"
| "step startRound (RecordWrong m) s = recordWrong m s"
| "step startRound (Timeout k) s = fire_timer startRound k s"
| "step startRound NextRound s = nextRound startRound s"
| "step startRound RestartActivity s = restartActivity startRound s"

fun run :: "(activity \<Rightarrow> activity) \<Rightarrow> event list \<Rightarrow> activity \<Rightarrow> activity" where
  "run startRound [] s = s"
| "run startRound (e # es) s = run startRound es (step startRound e s)"


text \<open>
  A host that reports each round at most once: it keeps its own "answered" flag, reports
  only while the flag is clear, and clears it whenever a round begins (at \<open>nextRound\<close>,
  called by the host or by the auto-advance timer, and at a restart).
\<close>

fun reported_once :: "(activity \<Rightarrow> activity) \<Rightarrow> activity \<Rightarrow> bool \<Rightarrow> event list \<Rightarrow> bool" where
  "reported_once startRound s answered [] = True"
| "reported_once startRound s answered (RecordCorrect m # es) =
     (\<not> answered \<and> reported_once startRound (recordCorrect m s) True es)"
| "reported_once startRound s answered (RecordWrong m # es) =
     (\<not> answered \<and> reported_once startRound (recordWrong m s) True es)"
| "reported_once startRound s answered (Timeout k # es) =
     reported_once startRound (fire_timer startRound k s)
       (if round_no (fire_timer startRound k s) = round_no s then answered else False) es"
| "reported_once startRound s answered (NextRound # es) =
     reported_once startRound (nextRound startRound s) False es"
| "reported_once startRound s answered (RestartActivity # es) =
     reported_once startRound (restartActivity startRound s) False es"

text \<open>
  A host that calls \<open>nextRound\<close> itself only while rounds remain, which is the test the
  auto-advance callback makes before it calls \<open>nextRound\<close>; \<open>nextRound\<close> makes none.
\<close>

fun advances_within :: "(activity \<Rightarrow> activity) \<Rightarrow> activity \<Rightarrow> event list \<Rightarrow> bool" where
  "advances_within startRound s [] = True"
| "advances_within startRound s (NextRound # es) =
     (round_no s < maxRounds s \<and> advances_within startRound (nextRound startRound s) es)"
| "advances_within startRound s (RecordCorrect m # es) =
     advances_within startRound (recordCorrect m s) es"
| "advances_within startRound s (RecordWrong m # es) =
     advances_within startRound (recordWrong m s) es"
| "advances_within startRound s (Timeout k # es) =
     advances_within startRound (fire_timer startRound k s) es"
| "advances_within startRound s (RestartActivity # es) =
     advances_within startRound (restartActivity startRound s) es"




section \<open>The unified ActivityBase: its state and progress indicator\<close>

text \<open>
  The unified base class counts rounds from 0 (\<open>nextRound\<close> makes it 1 before the first
  round) and has an \<open>isAnswered\<close> flag that its \<open>renderProgress\<close> reads. The fields it
  shares by name with the Pre-K class carry a prime.
\<close>

record activity_base =
  totalRounds :: nat
  currentRound :: nat
  correctCount' :: nat
  incorrectCount :: nat
  isAnswered :: bool
  activityId :: string
  progress' :: "element option"
  statsOverlay' :: "element option"
  statsMessage' :: "element option"
  statsIcon' :: "element option"
  statCorrect :: "element option"
  statIncorrect :: "element option"

definition className' :: "activity_base \<Rightarrow> nat \<Rightarrow> string" where
  "className' s i =
     (if i < currentRound s \<or> (i = currentRound s \<and> isAnswered s)
      then ''progress-dot'' @ '' completed''
      else if i = currentRound s then ''progress-dot'' @ '' current''
      else ''progress-dot'')"

function renderProgress_loop' :: "activity_base \<Rightarrow> nat \<Rightarrow> string \<Rightarrow> string" where
  "renderProgress_loop' s i html =
     (if i \<le> totalRounds s
      then renderProgress_loop' s (Suc i) (html @ dot_html (className' s i))
      else html)"
  by pat_completeness auto
termination
  by (relation "measure (\<lambda>(s, i, html). Suc (totalRounds s) - i)") auto

declare renderProgress_loop'.simps [simp del]

definition renderProgress' :: "activity_base \<Rightarrow> activity_base" where
  "renderProgress' s =
     (case progress' s of
        None \<Rightarrow> s
      | Some p \<Rightarrow> s\<lparr>progress' := Some (p\<lparr>innerHTML := renderProgress_loop' s 1 []\<rparr>)\<rparr>)"

section \<open>Example states\<close>

definition blank_element :: element where
  "blank_element = \<lparr>textContent = [], innerHTML = [], classList = []\<rparr>"

text \<open>An activity of \<open>n\<close> rounds whose page has every common element.\<close>

definition page_activity :: "nat \<Rightarrow> activity" where
  "page_activity n =
     (new_activity (Some n) None None)
       \<lparr>progress := Some blank_element, feedback := Some blank_element,
        statsOverlay := Some blank_element, statsCorrect := Some blank_element,
        statsWrong := Some blank_element, statsIcon := Some blank_element,
        statsMessage := Some blank_element\<rparr>"


text \<open>One round, answered wrong, advanced by hand, and the round after it answered wrong.\<close>

definition past_the_last_round :: "event list" where
  "past_the_last_round = [RecordWrong None, NextRound, RecordWrong None]"

definition answered_second_of_three :: activity_base where
  "answered_second_of_three =
     \<lparr>totalRounds = 3, currentRound = 2, correctCount' = 1, incorrectCount = 1,
      isAnswered = True, activityId = [], progress' = Some blank_element,
      statsOverlay' = None, statsMessage' = None, statsIcon' = None,
      statCorrect = None, statIncorrect = None\<rparr>"

text \<open>
  A page of the unified class that has every summary element, after \<open>n\<close> rounds with \<open>c\<close>
  correct answers; the activity has no identifier, so its messages are the generic ones.
\<close>

definition summary_page :: "nat \<Rightarrow> nat \<Rightarrow> activity_base" where
  "summary_page n c =
     \<lparr>totalRounds = n, currentRound = n + 1, correctCount' = c, incorrectCount = n - c,
      isAnswered = False, activityId = [], progress' = Some blank_element,
      statsOverlay' = Some blank_element, statsMessage' = Some blank_element,
      statsIcon' = Some blank_element, statCorrect = Some blank_element,
      statIncorrect = Some blank_element\<rparr>"

section \<open>JavaScript values\<close>

datatype js_error = TypeError | QuotaExceededError | SyntaxError

text \<open>
  The values a parsed JSON bundle is made of, plus \<open>undefined\<close> and built-in functions
  (what reading an inherited method such as \<open>constructor\<close> gives). An object is its list
  of own properties, first binding first.
\<close>

datatype jsval =
    JUndefined
  | JNull
  | JBool bool
  | JNumber int
  | JString string
  | JArray "jsval list"
  | JObject "(string \<times> jsval) list"
  | JFunction string

text \<open>\<open>typeof v === 'object'\<close> and \<open>typeof v === 'string'\<close>; \<open>null\<close> is an object to \<open>typeof\<close>.\<close>

fun typeof_object :: "jsval \<Rightarrow> bool" where
  "typeof_object JNull = True"
| "typeof_object (JArray xs) = True"
| "typeof_object (JObject ps) = True"
| "typeof_object v = False"

fun typeof_string :: "jsval \<Rightarrow> bool" where
  "typeof_string (JString s) = True"
| "typeof_string v = False"

fun truthy :: "jsval \<Rightarrow> bool" where
  "truthy JUndefined = False"
| "truthy JNull = False"
| "truthy (JBool b) = b"
| "truthy (JNumber n) = (n \<noteq> 0)"
| "truthy (JString s) = (s \<noteq> [])"
| "truthy (JArray xs) = True"
| "truthy (JObject ps) = True"
| "truthy (JFunction f) = True"

text \<open>
  What objects and arrays inherit is the engine's, not the repository's: the tables of
  \<open>Object.prototype\<close> and \<open>Array.prototype\<close> are a parameter. An array inherits from
  both.
\<close>

record js_env =
  object_prototype :: "(string \<times> jsval) list"
  array_prototype :: "(string \<times> jsval) list"

fun inherited :: "js_env \<Rightarrow> jsval \<Rightarrow> string \<Rightarrow> jsval option" where
  "inherited env (JObject ps) k = map_of (object_prototype env) k"
| "inherited env (JArray xs) k =
     (case map_of (array_prototype env) k of
        Some v \<Rightarrow> Some v
      | None \<Rightarrow> map_of (object_prototype env) k)"
| "inherited env v k = None"

text \<open>
  An array's own properties are \<open>length\<close> and its indices in canonical decimal form
  (\<open>''0''\<close>, \<open>''1''\<close>, ... with no leading zero).
\<close>

definition array_index :: "string \<Rightarrow> nat \<Rightarrow> nat option" where
  "array_index k n = (case filter (\<lambda>i. show_nat i = k) [0..<n] of [] \<Rightarrow> None | i # _ \<Rightarrow> Some i)"

fun own_property :: "jsval \<Rightarrow> string \<Rightarrow> jsval option" where
  "own_property (JObject ps) k = map_of ps k"
| "own_property (JArray xs) k =
     (if k = ''length'' then Some (JNumber (int (length xs)))
      else map_option (\<lambda>i. xs ! i) (array_index k (length xs)))"
| "own_property v k = None"

text \<open>\<open>k in v\<close>: a TypeError unless \<open>v\<close> is an object; it sees inherited properties too.\<close>

fun js_in :: "js_env \<Rightarrow> string \<Rightarrow> jsval \<Rightarrow> js_error + bool" where
  "js_in env k (JObject ps) =
     Inr (own_property (JObject ps) k \<noteq> None \<or> inherited env (JObject ps) k \<noteq> None)"
| "js_in env k (JArray xs) =
     Inr (own_property (JArray xs) k \<noteq> None \<or> inherited env (JArray xs) k \<noteq> None)"
| "js_in env k v = Inl TypeError"

text \<open>
  \<open>v[k]\<close>: a TypeError on \<open>undefined\<close> and \<open>null\<close>; own property first, then the
  inherited one, else \<open>undefined\<close>. The scripts read properties of objects and arrays
  only; the properties of strings, numbers and functions are not modelled.
\<close>

fun js_get :: "js_env \<Rightarrow> jsval \<Rightarrow> string \<Rightarrow> js_error + jsval" where
  "js_get env JUndefined k = Inl TypeError"
| "js_get env JNull k = Inl TypeError"
| "js_get env v k =
     (case own_property v k of
        Some x \<Rightarrow> Inr x
      | None \<Rightarrow> (case inherited env v k of Some x \<Rightarrow> Inr x | None \<Rightarrow> Inr JUndefined))"

section \<open>Strings\<close>

text \<open>\<open>s.split(c)\<close> for a one-character separator: never empty, \<open>''''.split('.')\<close> is \<open>['''']\<close>.\<close>

fun split_on :: "char \<Rightarrow> string \<Rightarrow> string list" where
  "split_on c [] = [[]]"
| "split_on c (x # xs) =
     (if x = c then [] # split_on c xs
      else (case split_on c xs of
              [] \<Rightarrow> [[x]]
            | w # ws \<Rightarrow> (x # w) # ws))"

text \<open>\<open>startsWith\<close>, \<open>includes\<close>, \<open>endsWith\<close> and \<open>toLowerCase\<close> (on ASCII letters).\<close>

definition startsWith :: "string \<Rightarrow> string \<Rightarrow> bool" where
  "startsWith s p = (take (length p) s = p)"

fun js_includes :: "string \<Rightarrow> string \<Rightarrow> bool" where
  "js_includes [] p = (p = [])"
| "js_includes (x # xs) p = (startsWith (x # xs) p \<or> js_includes xs p)"

definition endsWith :: "string \<Rightarrow> string \<Rightarrow> bool" where
  "endsWith s p = (length p \<le> length s \<and> drop (length s - length p) s = p)"

definition lower_char :: "char \<Rightarrow> char" where
  "lower_char c =
     (if (65::nat) \<le> of_char c \<and> of_char c \<le> (90::nat)
      then char_of (of_char c + (32::nat)) else c)"

definition toLowerCase :: "string \<Rightarrow> string" where
  "toLowerCase s = map lower_char s"

section \<open>Local storage\<close>

text \<open>
  \<open>localStorage\<close> holds strings under string keys. A write that would take the store
  past its capacity throws; a store of capacity 0 refuses every write, which is how a
  disabled or full store shows itself to the availability probe.
\<close>

record local_storage =
  entries :: "(string \<times> string) list"
  capacity :: nat

definition storage_size :: "(string \<times> string) list \<Rightarrow> nat" where
  "storage_size es = sum_list (map (\<lambda>(k, v). length k + length v) es)"

definition localStorage_getItem :: "string \<Rightarrow> local_storage \<Rightarrow> string option" where
  "localStorage_getItem k st = map_of (entries st) k"

definition localStorage_setItem :: "string \<Rightarrow> string \<Rightarrow> local_storage \<Rightarrow> js_error + local_storage" where
  "localStorage_setItem k v st =
     (let es = AList.update k v (entries st)
      in if storage_size es > capacity st then Inl QuotaExceededError
         else Inr (st\<lparr>entries := es\<rparr>))"

definition localStorage_removeItem :: "string \<Rightarrow> local_storage \<Rightarrow> local_storage" where
  "localStorage_removeItem k st = st\<lparr>entries := AList.delete k (entries st)\<rparr>"

section \<open>The translation catalog (i18n)\<close>

text \<open>
  What the catalog reads and writes on its page: the elements marked for translation,
  the language buttons, the document's title and language, the events it dispatches,
  the console, the requests it makes and the local storage.
\<close>

record node =
  data_i18n :: "string option"
  data_i18n_placeholder :: "string option"
  data_i18n_title :: "string option"
  is_title :: bool
  node_text :: string
  node_placeholder :: string
  node_title :: string
  node_aria_label :: "string option"

record lang_button =
  data_lang :: string
  btn_active :: bool
  aria_pressed :: string

text \<open>
  The fields of the \<open>i18n\<close> object that change (\<open>translations\<close>, a keyword here, is
  \<open>translationTrees\<close>), and the page. \<open>translations\<close> and \<open>cache\<close> are plain objects
  keyed by language; \<open>cache[lang]\<close> is an object keyed by bundle name.
\<close>

record i18n =
  currentLang :: string
  translationTrees :: "(string \<times> jsval) list"
  cache :: "(string \<times> (string \<times> jsval) list) list"
  isFileProtocol :: bool
  pathname :: string
  html_lang :: string
  document_title :: string
  nodes :: "node list"
  buttons :: "lang_button list"
  dispatched :: "(string \<times> string) list"
  console :: "string list"
  requests :: "string list"
  storage :: local_storage

definition fallbackLang :: string where
  "fallbackLang = ''en''"

definition supportedLanguages :: "string list" where
  "supportedLanguages = [''en'', ''vi'']"

definition sections :: "string list" where
  "sections = [''prek'', ''kindergarten'', ''grade1'', ''grade2'', ''grade3'', ''grade4'', ''grade5'']"

subsection \<open>t(key)\<close>

text \<open>
  The inner loop over the fallback tree: \<open>None\<close> is its \<open>return key\<close>, \<open>Some v\<close> the
  value it ends on.
\<close>

fun t_fallback_loop :: "js_env \<Rightarrow> jsval \<Rightarrow> string list \<Rightarrow> js_error + jsval option" where
  "t_fallback_loop env v [] = Inr (Some v)"
| "t_fallback_loop env v (fk # fks) =
     (if truthy v \<and> typeof_object v then
        (case js_in env fk v of
           Inl e \<Rightarrow> Inl e
         | Inr True \<Rightarrow>
             (case js_get env v fk of
                Inl e \<Rightarrow> Inl e
              | Inr v' \<Rightarrow> t_fallback_loop env v' fks)
         | Inr False \<Rightarrow> Inr None)
      else Inr None)"

definition t_result :: "string \<Rightarrow> jsval \<Rightarrow> string" where
  "t_result key v = (case v of JString s \<Rightarrow> s | _ \<Rightarrow> key)"

definition t_try_fallback :: "js_env \<Rightarrow> i18n \<Rightarrow> string \<Rightarrow> string list \<Rightarrow> js_error + string" where
  "t_try_fallback env s key keys =
     (case js_get env (JObject (translationTrees s)) fallbackLang of
        Inl e \<Rightarrow> Inl e
      | Inr v \<Rightarrow>
          if \<not> truthy v then Inr key
          else (case t_fallback_loop env v keys of
                  Inl e \<Rightarrow> Inl e
                | Inr None \<Rightarrow> Inr key
                | Inr (Some v') \<Rightarrow> Inr (t_result key v')))"

text \<open>The outer loop; \<open>keys\<close> is the whole path, the last argument what is left of it.\<close>

fun t_loop :: "js_env \<Rightarrow> i18n \<Rightarrow> string \<Rightarrow> string list \<Rightarrow> jsval \<Rightarrow> string list \<Rightarrow> js_error + string" where
  "t_loop env s key keys v [] = Inr (t_result key v)"
| "t_loop env s key keys v (k # ks) =
     (if truthy v \<and> typeof_object v then
        (case js_in env k v of
           Inl e \<Rightarrow> Inl e
         | Inr True \<Rightarrow>
             (case js_get env v k of
                Inl e \<Rightarrow> Inl e
              | Inr v' \<Rightarrow> t_loop env s key keys v' ks)
         | Inr False \<Rightarrow> t_try_fallback env s key keys)
      else t_try_fallback env s key keys)"

definition t :: "js_env \<Rightarrow> i18n \<Rightarrow> string \<Rightarrow> js_error + string" where
  "t env s key =
     (let keys = split_on CHR ''.'' key
      in case js_get env (JObject (translationTrees s)) (currentLang s) of
           Inl e \<Rightarrow> Inl e
         | Inr v \<Rightarrow> t_loop env s key keys v keys)"

subsection \<open>Resolution as the specification words it\<close>

text \<open>
  Following a path through a tree, segment by segment: \<open>None\<close> when a segment is missing.
  \<open>resolve\<close> takes "missing" as the code's test does (\<open>in\<close>, on an object);
  \<open>tree_resolve\<close> takes a bundle as the mapping the JSON file spells out, own keys only.
\<close>

fun resolve :: "js_env \<Rightarrow> jsval \<Rightarrow> string list \<Rightarrow> jsval option" where
  "resolve env v [] = Some v"
| "resolve env v (k # ks) =
     (if truthy v \<and> typeof_object v
         \<and> (own_property v k \<noteq> None \<or> inherited env v k \<noteq> None)
      then (case own_property v k of
              Some v' \<Rightarrow> resolve env v' ks
            | None \<Rightarrow> (case inherited env v k of Some v' \<Rightarrow> resolve env v' ks | None \<Rightarrow> None))
      else None)"

fun tree_resolve :: "jsval \<Rightarrow> string list \<Rightarrow> jsval option" where
  "tree_resolve v [] = Some v"
| "tree_resolve (JObject ps) (k # ks) =
     (case map_of ps k of Some v' \<Rightarrow> tree_resolve v' ks | None \<Rightarrow> None)"
| "tree_resolve v (k # ks) = None"

definition language_tree :: "js_env \<Rightarrow> i18n \<Rightarrow> string \<Rightarrow> jsval" where
  "language_tree env s lang =
     (case own_property (JObject (translationTrees s)) lang of
        Some v \<Rightarrow> v
      | None \<Rightarrow> (case inherited env (JObject (translationTrees s)) lang of
                   Some v \<Rightarrow> v
                 | None \<Rightarrow> JUndefined))"

definition t_spec :: "js_env \<Rightarrow> i18n \<Rightarrow> string \<Rightarrow> string" where
  "t_spec env s key =
     (let keys = split_on CHR ''.'' key
      in case resolve env (language_tree env s (currentLang s)) keys of
           Some v \<Rightarrow> t_result key v
         | None \<Rightarrow>
             (if \<not> truthy (language_tree env s fallbackLang) then key
              else (case resolve env (language_tree env s fallbackLang) keys of
                      Some v \<Rightarrow> t_result key v
                    | None \<Rightarrow> key)))"

text \<open>The inherited properties every ECMAScript 5 engine gives a plain object and an array.\<close>

definition es5_env :: js_env where
  "es5_env =
     \<lparr> object_prototype =
         map (\<lambda>n. (n, JFunction n))
           [''constructor'', ''toString'', ''toLocaleString'', ''valueOf'',
            ''hasOwnProperty'', ''isPrototypeOf'', ''propertyIsEnumerable''],
       array_prototype =
         map (\<lambda>n. (n, JFunction n))
           [''constructor'', ''toString'', ''toLocaleString'', ''join'', ''pop'', ''push'',
            ''reverse'', ''shift'', ''slice'', ''sort'', ''splice'', ''unshift'', ''concat'',
            ''indexOf'', ''lastIndexOf'', ''every'', ''some'', ''forEach'', ''map'',
            ''filter'', ''reduce'', ''reduceRight''] \<rparr>"

subsection \<open>Loading bundles\<close>

definition getBasePath :: "i18n \<Rightarrow> string" where
  "getBasePath s =
     (if isFileProtocol s then
        (let pathParts = filter (\<lambda>p. p \<noteq> [] \<and> \<not> js_includes p ''.html'')
                                (split_on CHR ''/'' (pathname s));
             isInSubfolder = (list_ex (\<lambda>sec. sec \<in> set pathParts) sections
                              \<or> ''kindergarten'' \<in> set pathParts);
             isInActivities = (''activities'' \<in> set pathParts)
         in if isInActivities then ''../../lang''
            else if isInSubfolder then ''../lang''
            else ''./lang'')
      else ''/lang'')"

text \<open>The \<open>for ... of\<close> loop over the section names, returning at the first match.\<close>

fun detect_in :: "string \<Rightarrow> string list \<Rightarrow> string option" where
  "detect_in path [] = None"
| "detect_in path (sec # secs) =
     (if js_includes path (''/'' @ sec @ ''/'') \<or> js_includes path (''/'' @ sec @ ''.'')
         \<or> endsWith path (''/'' @ sec)
      then Some sec
      else detect_in path secs)"

definition detectCurrentSection :: "i18n \<Rightarrow> string option" where
  "detectCurrentSection s = detect_in (toLowerCase (pathname s)) sections"

text \<open>
  An object spread \<open>{ ...v }\<close>: the own enumerable properties of \<open>v\<close>; nothing for
  \<open>undefined\<close>, \<open>null\<close>, numbers, booleans and functions.
\<close>

fun spread :: "jsval \<Rightarrow> (string \<times> jsval) list" where
  "spread (JObject ps) = ps"
| "spread (JArray xs) = zip (map show_nat [0..<length xs]) xs"
| "spread (JString cs) = zip (map show_nat [0..<length cs]) (map (\<lambda>c. JString [c]) cs)"
| "spread v = []"

text \<open>
  An \<open>async\<close> method ends fulfilled or rejected; either way the state it reached stays.
\<close>

datatype outcome = Fulfilled | Rejected js_error

definition and_then :: "i18n \<times> outcome \<Rightarrow> (i18n \<Rightarrow> i18n \<times> outcome) \<Rightarrow> i18n \<times> outcome" where
  "and_then r f = (case r of (s, Fulfilled) \<Rightarrow> f s | (s, Rejected e) \<Rightarrow> (s, Rejected e))"

definition own_or_undefined :: "(string \<times> jsval) list \<Rightarrow> string \<Rightarrow> jsval" where
  "own_or_undefined ps k = (case map_of ps k of Some v \<Rightarrow> v | None \<Rightarrow> JUndefined)"

text \<open>
  \<open>server\<close> answers a URL with the parsed JSON body, or \<open>None\<close> when the fetch fails, the
  status is not ok or the body does not parse: the three ways into the \<open>catch\<close>.
  \<open>lang\<close> is one of the supported languages wherever the object calls these two, and no
  bundle name is an inherited property, so the reads of \<open>cache\<close> and \<open>translations\<close> are
  own-property reads.
\<close>

definition loadCommon :: "(string \<Rightarrow> jsval option) \<Rightarrow> string \<Rightarrow> i18n \<Rightarrow> i18n \<times> outcome" where
  "loadCommon server lang s =
     (case map_of (cache s) lang of
        None \<Rightarrow> (s, Rejected TypeError)
      | Some c \<Rightarrow>
          if truthy (own_or_undefined c ''common'') then
            (s\<lparr>translationTrees :=
                 AList.update lang (JObject (spread (own_or_undefined c ''common'')))
                   (translationTrees s)\<rparr>, Fulfilled)
          else
            (let url = getBasePath s @ ''/'' @ lang @ ''/common.json'';
                 s1 = s\<lparr>requests := requests s @ [url]\<rparr>
             in case server url of
                  Some data \<Rightarrow>
                    (s1\<lparr>cache := AList.update lang (AList.update ''common'' data c) (cache s1),
                        translationTrees :=
                          AList.update lang (JObject (spread data)) (translationTrees s1)\<rparr>,
                     Fulfilled)
                | None \<Rightarrow>
                    (let s2 = s1\<lparr>console := console s1
                                 @ [''Could not load common translations for '' @ lang @ '':'']\<rparr>
                     in if \<not> truthy (own_or_undefined (translationTrees s2) lang)
                        then (s2\<lparr>translationTrees :=
                                   AList.update lang (JObject []) (translationTrees s2)\<rparr>,
                              Fulfilled)
                        else (s2, Fulfilled))))"

definition loadSection :: "(string \<Rightarrow> jsval option) \<Rightarrow> string \<Rightarrow> string \<Rightarrow> i18n \<Rightarrow> i18n \<times> outcome" where
  "loadSection server lang sectionName s =
     (case map_of (cache s) lang of
        None \<Rightarrow> (s, Rejected TypeError)
      | Some c \<Rightarrow>
          if truthy (own_or_undefined c sectionName) then
            (s\<lparr>translationTrees :=
                 AList.update lang
                   (JObject (AList.update ''section'' (own_or_undefined c sectionName)
                               (spread (own_or_undefined (translationTrees s) lang))))
                   (translationTrees s)\<rparr>, Fulfilled)
          else
            (let url = getBasePath s @ ''/'' @ lang @ ''/'' @ sectionName @ ''.json'';
                 s1 = s\<lparr>requests := requests s @ [url]\<rparr>
             in case server url of
                  Some data \<Rightarrow>
                    (s1\<lparr>cache := AList.update lang (AList.update sectionName data c) (cache s1),
                        translationTrees :=
                          AList.update lang
                            (JObject (AList.update ''section'' data
                                        (spread (own_or_undefined (translationTrees s1) lang))))
                            (translationTrees s1)\<rparr>,
                     Fulfilled)
                | None \<Rightarrow>
                    (s1\<lparr>console := console s1
                          @ [''Could not load '' @ sectionName @ '' translations for '' @ lang @ '':'']\<rparr>,
                     Fulfilled)))"

subsection \<open>Applying translations to the page\<close>

text \<open>
  One \<open>forEach\<close> pass: for every element that carries the attribute, look its key up and
  write the translation unless it is the key itself.
\<close>

fun apply_pass :: "(node \<Rightarrow> string option) \<Rightarrow> (string \<Rightarrow> node \<Rightarrow> node) \<Rightarrow> js_env \<Rightarrow> i18n
    \<Rightarrow> node list \<Rightarrow> js_error + node list" where
  "apply_pass attr write env s [] = Inr []"
| "apply_pass attr write env s (n # ns) =
     (case attr n of
        None \<Rightarrow> (case apply_pass attr write env s ns of
                   Inl e \<Rightarrow> Inl e
                 | Inr ns' \<Rightarrow> Inr (n # ns'))
      | Some key \<Rightarrow>
          (case t env s key of
             Inl e \<Rightarrow> Inl e
           | Inr translation \<Rightarrow>
               (case apply_pass attr write env s ns of
                  Inl e \<Rightarrow> Inl e
                | Inr ns' \<Rightarrow>
                    Inr ((if translation \<noteq> key then write translation n else n) # ns'))))"

definition applyTranslations :: "js_env \<Rightarrow> i18n \<Rightarrow> js_error + i18n" where
  "applyTranslations env s =
     (case apply_pass data_i18n (\<lambda>tr n. n\<lparr>node_text := tr\<rparr>) env s (nodes s) of
        Inl e \<Rightarrow> Inl e
      | Inr ns1 \<Rightarrow>
     (case apply_pass data_i18n_placeholder (\<lambda>tr n. n\<lparr>node_placeholder := tr\<rparr>) env s ns1 of
        Inl e \<Rightarrow> Inl e
      | Inr ns2 \<Rightarrow>
     (case apply_pass data_i18n_title
             (\<lambda>tr n. n\<lparr>node_title := tr, node_aria_label := Some tr\<rparr>) env s ns2 of
        Inl e \<Rightarrow> Inl e
      | Inr ns3 \<Rightarrow>
     (let s1 = s\<lparr>nodes := ns3\<rparr>
      in case filter (\<lambda>n. is_title n \<and> data_i18n n \<noteq> None) ns3 of
           [] \<Rightarrow> Inr s1
         | titleEl # _ \<Rightarrow>
             (case data_i18n titleEl of
                None \<Rightarrow> Inr s1
              | Some titleKey \<Rightarrow>
                  (case t env s1 titleKey of
                     Inl e \<Rightarrow> Inl e
                   | Inr translation \<Rightarrow>
                       Inr (if translation \<noteq> titleKey
                            then s1\<lparr>document_title := translation\<rparr> else s1)))))))"

subsection \<open>setLanguage and the language buttons\<close>

definition setLanguage :: "js_env \<Rightarrow> (string \<Rightarrow> jsval option) \<Rightarrow> string \<Rightarrow> i18n \<Rightarrow> i18n \<times> outcome" where
  "setLanguage env server lang s =
     (if lang \<notin> set supportedLanguages then
        (s\<lparr>console := console s @ [''Language \"'' @ lang @ ''\" not supported'']\<rparr>, Fulfilled)
      else
        (let s1 = s\<lparr>currentLang := lang\<rparr>
         in case localStorage_setItem ''meadowmath-lang'' lang (storage s1) of
              Inl e \<Rightarrow> (s1, Rejected e)
            | Inr st \<Rightarrow>
                (let s2 = s1\<lparr>storage := st, html_lang := lang\<rparr>
                 in and_then (loadCommon server lang s2) (\<lambda>s3.
                    and_then (case detectCurrentSection s3 of
                                None \<Rightarrow> (s3, Fulfilled)
                              | Some sectionName \<Rightarrow> loadSection server lang sectionName s3) (\<lambda>s4.
                    case applyTranslations env s4 of
                      Inl e \<Rightarrow> (s4, Rejected e)
                    | Inr s5 \<Rightarrow>
                        (s5\<lparr>dispatched := dispatched s5 @ [(''languageChanged'', lang)]\<rparr>,
                         Fulfilled))))))"

text \<open>
  The click handler that \<open>setupLanguageButtons\<close> gives the button of language \<open>lang\<close>.
\<close>

definition mark_button :: "string \<Rightarrow> lang_button \<Rightarrow> lang_button" where
  "mark_button lang b =
     (if data_lang b = lang then b\<lparr>btn_active := True, aria_pressed := ''true''\<rparr>
      else b\<lparr>btn_active := False, aria_pressed := ''false''\<rparr>)"

definition lang_button_click :: "js_env \<Rightarrow> (string \<Rightarrow> jsval option) \<Rightarrow> string \<Rightarrow> i18n \<Rightarrow> i18n \<times> outcome" where
  "lang_button_click env server lang s =
     (if lang = currentLang s then (s, Fulfilled)
      else and_then (setLanguage env server lang s)
             (\<lambda>s1. (s1\<lparr>buttons := map (mark_button lang) (buttons s1)\<rparr>, Fulfilled)))"

subsection \<open>What the specification asks of setLanguage\<close>

text \<open>
  The three passes of \<open>applyTranslations\<close> on one element, with the lookup written as
  \<open>t_spec\<close>; and the bundles of a language that are not yet cached, as URLs.
\<close>

definition translate_attr :: "(node \<Rightarrow> string option) \<Rightarrow> (string \<Rightarrow> node \<Rightarrow> node) \<Rightarrow> js_env \<Rightarrow> i18n
    \<Rightarrow> node \<Rightarrow> node" where
  "translate_attr attr write env s n =
     (case attr n of
        None \<Rightarrow> n
      | Some key \<Rightarrow> if t_spec env s key \<noteq> key then write (t_spec env s key) n else n)"

definition translate_node :: "js_env \<Rightarrow> i18n \<Rightarrow> node \<Rightarrow> node" where
  "translate_node env s n =
     translate_attr data_i18n_title (\<lambda>tr n. n\<lparr>node_title := tr, node_aria_label := Some tr\<rparr>) env s
       (translate_attr data_i18n_placeholder (\<lambda>tr n. n\<lparr>node_placeholder := tr\<rparr>) env s
         (translate_attr data_i18n (\<lambda>tr n. n\<lparr>node_text := tr\<rparr>) env s n))"

definition uncached_urls :: "i18n \<Rightarrow> string \<Rightarrow> string list" where
  "uncached_urls s lang =
     (case map_of (cache s) lang of
        None \<Rightarrow> []
      | Some c \<Rightarrow>
          (if truthy (own_or_undefined c ''common'') then []
           else [getBasePath s @ ''/'' @ lang @ ''/common.json''])
          @ (case detectCurrentSection s of
               None \<Rightarrow> []
             | Some sectionName \<Rightarrow>
                 if truthy (own_or_undefined c sectionName) then []
                 else [getBasePath s @ ''/'' @ lang @ ''/'' @ sectionName @ ''.json'']))"

text \<open>
  A bundle of a language as \<open>setLanguage\<close> gets it: the cached one if the cache holds a
  truthy value under its name, else the server's answer to its URL (\<open>None\<close> when the
  fetch fails).
\<close>

definition language_bundle :: "(string \<Rightarrow> jsval option) \<Rightarrow> i18n \<Rightarrow> string \<Rightarrow> string \<Rightarrow> jsval option" where
  "language_bundle server s lang name =
     (case map_of (cache s) lang of
        None \<Rightarrow> None
      | Some c \<Rightarrow>
          if truthy (own_or_undefined c name) then Some (own_or_undefined c name)
          else server (getBasePath s @ ''/'' @ lang @ ''/'' @ name @ ''.json''))"

text \<open>
  The tree of a language once its bundles are loaded: a copy of the common bundle (the
  tree as it was, or \<open>{}\<close> if there was none, when the common bundle cannot be had),
  with the page's section bundle under \<open>section\<close> when there is a section and its
  bundle can be had.
\<close>

definition loaded_tree :: "(string \<Rightarrow> jsval option) \<Rightarrow> i18n \<Rightarrow> string \<Rightarrow> jsval" where
  "loaded_tree server s lang =
     (let common =
            (case language_bundle server s lang ''common'' of
               Some data \<Rightarrow> JObject (spread data)
             | None \<Rightarrow>
                 if truthy (own_or_undefined (translationTrees s) lang)
                 then own_or_undefined (translationTrees s) lang
                 else JObject [])
      in case detectCurrentSection s of
           None \<Rightarrow> common
         | Some sectionName \<Rightarrow>
             (case language_bundle server s lang sectionName of
                Some data \<Rightarrow> JObject (AList.update ''section'' data (spread common))
              | None \<Rightarrow> common))"

text \<open>
  What \<open>cache[lang][name]\<close> holds once the bundles are loaded: the common bundle and the
  section's bundle if they could be had, and what it held before otherwise.
\<close>

definition loaded_cache :: "(string \<Rightarrow> jsval option) \<Rightarrow> i18n \<Rightarrow> string \<Rightarrow> string \<Rightarrow> jsval" where
  "loaded_cache server s lang name =
     (case map_of (cache s) lang of
        None \<Rightarrow> JUndefined
      | Some c \<Rightarrow>
          if name = ''common'' \<or> detectCurrentSection s = Some name then
            (case language_bundle server s lang name of
               Some data \<Rightarrow> data
             | None \<Rightarrow> own_or_undefined c name)
          else own_or_undefined c name)"

definition cached :: "i18n \<Rightarrow> string \<Rightarrow> string \<Rightarrow> jsval" where
  "cached s lang name =
     (case map_of (cache s) lang of
        None \<Rightarrow> JUndefined
      | Some c \<Rightarrow> own_or_undefined c name)"

text \<open>
  The document title after the elements are translated: the translation of the first
  \<open>title\<close> element that carries a key, unless that is the key itself.
\<close>

definition translated_title :: "js_env \<Rightarrow> i18n \<Rightarrow> string \<Rightarrow> string" where
  "translated_title env s old =
     (case filter (\<lambda>n. is_title n \<and> data_i18n n \<noteq> None) (nodes s) of
        [] \<Rightarrow> old
      | titleEl # _ \<Rightarrow>
          (case data_i18n titleEl of
             None \<Rightarrow> old
           | Some titleKey \<Rightarrow>
               if t_spec env s titleKey \<noteq> titleKey then t_spec env s titleKey else old))"

text \<open>
  The \<open>i18n\<close> object as a value: its data properties and its methods, by the names the
  object literal gives them.
\<close>

definition i18n_methods :: "string list" where
  "i18n_methods =
     [''getBasePath'', ''init'', ''detectCurrentSection'', ''loadCommon'', ''loadSection'',
      ''t'', ''applyTranslations'', ''setupLanguageButtons'', ''setLanguage'',
      ''preloadSection'', ''getTranslations'', ''hasTranslation'']"

definition i18n_object :: "i18n \<Rightarrow> jsval" where
  "i18n_object s =
     JObject
       ([(''currentLang'', JString (currentLang s)),
         (''translations'', JObject (translationTrees s)),
         (''fallbackLang'', JString fallbackLang),
         (''supportedLanguages'', JArray (map JString supportedLanguages)),
         (''sections'', JArray (map JString sections)),
         (''cache'', JObject (map (\<lambda>(l, c). (l, JObject c)) (cache s))),
         (''isFileProtocol'', JBool (isFileProtocol s))]
        @ map (\<lambda>m. (m, JFunction m)) i18n_methods)"

subsection \<open>Example catalogs\<close>

definition blank_page :: i18n where
  "blank_page =
     \<lparr> currentLang = ''en'', translationTrees = [], cache = [(''en'', []), (''vi'', [])],
       isFileProtocol = False, pathname = ''/index.html'', html_lang = ''en'',
       document_title = ''Meadow Math'', nodes = [], buttons = [], dispatched = [],
       console = [], requests = [],
       storage = \<lparr>entries = [], capacity = 5000\<rparr> \<rparr>"

definition inherited_key_catalog :: i18n where
  "inherited_key_catalog =
     blank_page
       \<lparr> currentLang := ''vi'',
         translationTrees :=
           [(''vi'', JObject []),
            (''en'', JObject [(''constructor'', JString ''Builder'')])] \<rparr>"

definition structured_leaf_catalog :: i18n where
  "structured_leaf_catalog =
     blank_page
       \<lparr> currentLang := ''vi'',
         translationTrees :=
           [(''vi'', JObject [(''tips'', JArray [JString ''Dem'', JString ''Ve''])]),
            (''en'', JObject [(''tips'', JString ''Tips'')])] \<rparr>"

text \<open>
  A Pre-K page after \<open>init\<close> in English: both English bundles loaded and cached, one
  translated heading, two language buttons.
\<close>

definition en_common :: jsval where
  "en_common = JObject [(''nav'', JObject [(''home'', JString ''Home'')])]"

definition en_prek :: jsval where
  "en_prek = JObject [(''title'', JString ''Pre-K'')]"

definition vi_common :: jsval where
  "vi_common = JObject [(''nav'', JObject [(''home'', JString ''Trang chu'')])]"

definition vi_prek :: jsval where
  "vi_prek = JObject [(''title'', JString ''Mam non'')]"

definition meadow_server :: "string \<Rightarrow> jsval option" where
  "meadow_server url =
     (if url = ''/lang/en/common.json'' then Some en_common
      else if url = ''/lang/en/prek.json'' then Some en_prek
      else if url = ''/lang/vi/common.json'' then Some vi_common
      else if url = ''/lang/vi/prek.json'' then Some vi_prek
      else None)"

definition heading :: node where
  "heading =
     \<lparr> data_i18n = Some ''nav.home'', data_i18n_placeholder = None, data_i18n_title = None,
       is_title = False, node_text = ''Home'', node_placeholder = [], node_title = [],
       node_aria_label = None \<rparr>"

definition prek_page_en :: i18n where
  "prek_page_en =
     blank_page
       \<lparr> translationTrees :=
           [(''en'', JObject [(''nav'', JObject [(''home'', JString ''Home'')]),
                              (''section'', en_prek)])],
         cache := [(''en'', [(''common'', en_common), (''prek'', en_prek)]), (''vi'', [])],
         pathname := ''/prek/index.html'',
         nodes := [heading],
         buttons := [\<lparr>data_lang = ''en'', btn_active = True, aria_pressed = ''true''\<rparr>,
                     \<lparr>data_lang = ''vi'', btn_active = False, aria_pressed = ''false''\<rparr>] \<rparr>"

text \<open>The same page with a store too full for the preference, and one with an empty cache.\<close>

definition prek_page_full_store :: i18n where
  "prek_page_full_store = prek_page_en\<lparr>storage := \<lparr>entries = [], capacity = 10\<rparr>\<rparr>"

definition prek_page_no_cache :: i18n where
  "prek_page_no_cache = prek_page_en\<lparr>cache := []\<rparr>"

section \<open>The unified ActivityBase: its completion summary\<close>

text \<open>
  \<open>Math.round((this.correctCount / this.totalRounds) * 100)\<close>, which both
  \<open>updateStatsDisplay\<close> and \<open>updateStatsMessage\<close> compute.
\<close>

definition percentage :: "activity_base \<Rightarrow> jsnum" where
  "percentage s = Math_round (js_times (js_div (correctCount' s) (totalRounds s)) 100)"

definition getDefaultStatsMessage :: "jsnum \<Rightarrow> string" where
  "getDefaultStatsMessage p =
     (if js_eq p 100 then ''Perfect! You're amazing!''
      else if js_ge p 80 then ''Great job! You're really good at this!''
      else if js_ge p 60 then ''Good work! Keep practicing!''
      else ''Keep practicing! You're improving!'')"

text \<open>
  The key of a message: \<open>this.activityId ? `section.activities.${this.activityId}.level` : null\<close>.
\<close>

definition message_key :: "activity_base \<Rightarrow> string \<Rightarrow> string option" where
  "message_key s level =
     (if activityId s \<noteq> [] then Some (''section.activities.'' @ activityId s @ ''.'' @ level)
      else None)"

text \<open>
  \<open>updateStatsMessage\<close>: \<open>win\<close> is \<open>window.i18n\<close>, absent on a page without the catalog.
  The translation is used unless it is empty or the key itself.
\<close>

definition updateStatsMessage :: "js_env \<Rightarrow> i18n option \<Rightarrow> activity_base \<Rightarrow> js_error + activity_base" where
  "updateStatsMessage env win s =
     (case statsMessage' s of
        None \<Rightarrow> Inr s
      | Some el \<Rightarrow>
          (let p = percentage s;
               msgKey = (if js_eq p 100 then message_key s ''perfect''
                         else if js_ge p 80 then message_key s ''great''
                         else if js_ge p 60 then message_key s ''good''
                         else message_key s ''keepPracticing'')
           in case (case msgKey of
                      None \<Rightarrow> Inr None
                    | Some k \<Rightarrow>
                        (case win of
                           None \<Rightarrow> Inr None
                         | Some catalog \<Rightarrow>
                             (case t env catalog k of
                                Inl e \<Rightarrow> Inl e
                              | Inr m \<Rightarrow> Inr (Some m)))) of
                Inl e \<Rightarrow> Inl e
              | Inr msg \<Rightarrow>
                  (let msg' = (case msg of
                                 None \<Rightarrow> getDefaultStatsMessage p
                               | Some m \<Rightarrow>
                                   if m = [] \<or> Some m = msgKey then getDefaultStatsMessage p
                                   else m)
                   in Inr (s\<lparr>statsMessage' := Some (el\<lparr>textContent := msg'\<rparr>)\<rparr>))))"

definition updateStatsDisplay :: "js_env \<Rightarrow> i18n option \<Rightarrow> activity_base \<Rightarrow> js_error + activity_base" where
  "updateStatsDisplay env win s =
     (let p = percentage s;
          s1 = (case statsIcon' s of
                  None \<Rightarrow> s
                | Some ic \<Rightarrow>
                    s\<lparr>statsIcon' := Some (ic\<lparr>textContent :=
                         (if js_ge p 80 then icon_star
                          else if js_ge p 60 then icon_party
                          else icon_thumbs)\<rparr>)\<rparr>)
      in updateStatsMessage env win s1)"

definition showStats' :: "js_env \<Rightarrow> i18n option \<Rightarrow> activity_base \<Rightarrow> js_error + activity_base" where
  "showStats' env win s =
     (case statsOverlay' s of
        None \<Rightarrow> Inr s
      | Some ov \<Rightarrow>
          (let s1 = s\<lparr>statCorrect := set_text (show_nat (correctCount' s)) (statCorrect s)\<rparr>;
               s2 = s1\<lparr>statIncorrect := set_text (show_nat (incorrectCount s1)) (statIncorrect s1)\<rparr>
           in case updateStatsDisplay env win s2 of
                Inl e \<Rightarrow> Inl e
              | Inr s3 \<Rightarrow> Inr (s3\<lparr>statsOverlay' := Some (classList_add ''show'' ov)\<rparr>)))"

text \<open>
  The message of a level as the specification words it: the catalog's translation of the
  activity's key for the level, or the generic message of the level when there is no
  catalog, no activity identifier, or no translation.
\<close>

definition level_message :: "js_env \<Rightarrow> i18n option \<Rightarrow> activity_base \<Rightarrow> string \<Rightarrow> string \<Rightarrow> string" where
  "level_message env win s level generic =
     (case win of
        None \<Rightarrow> generic
      | Some catalog \<Rightarrow>
          if activityId s = [] then generic
          else (let k = ''section.activities.'' @ activityId s @ ''.'' @ level;
                    m = t_spec env catalog k
                in if m = [] \<or> m = k then generic else m))"

section \<open>JSON text\<close>







text \<open>The parser. Whitespace is space, tab, line feed and carriage return.\<close>

definition json_ws :: "char \<Rightarrow> bool" where
  "json_ws c = (c = CHR '' '' \<or> c = CHR 0x09 \<or> c = CHR 0x0A \<or> c = CHR 0x0D)"

definition skip_ws :: "string \<Rightarrow> string" where
  "skip_ws cs = dropWhile json_ws cs"

definition is_digit :: "char \<Rightarrow> bool" where
  "is_digit c = ((48::nat) \<le> of_char c \<and> of_char c \<le> (57::nat))"

definition digit_value :: "char \<Rightarrow> nat" where
  "digit_value c = of_char c - 48"

definition hex_value :: "char \<Rightarrow> nat option" where
  "hex_value c =
     (let n = (of_char c :: nat)
      in if 48 \<le> n \<and> n \<le> 57 then Some (n - 48)
         else if 97 \<le> n \<and> n \<le> 102 then Some (n - 87)
         else if 65 \<le> n \<and> n \<le> 70 then Some (n - 55)
         else None)"

text \<open>
  The characters of a string literal, after its opening quote, up to the closing one.
  A four-digit hexadecimal escape of a code unit above 255 is outside the model's
  characters.
\<close>

fun parse_chars :: "string \<Rightarrow> (string \<times> string) option" where
  "parse_chars [] = None"
| "parse_chars (c # cs) =
     (if c = CHR 0x22 then Some ([], cs)
      else if c = CHR 0x5C then
        (case cs of
           [] \<Rightarrow> None
         | e # cs' \<Rightarrow>
             if e = CHR ''u'' then
               (case cs' of
                  a # b # c2 # d # rest \<Rightarrow>
                    (case (hex_value a, hex_value b, hex_value c2, hex_value d) of
                       (Some 0, Some 0, Some h, Some l) \<Rightarrow>
                         map_option (\<lambda>(s, r). (char_of (16 * h + l) # s, r)) (parse_chars rest)
                     | _ \<Rightarrow> None)
                | _ \<Rightarrow> None)
             else
               (case (if e = CHR 0x22 then Some (CHR 0x22)
                      else if e = CHR 0x5C then Some (CHR 0x5C)
                      else if e = CHR ''/'' then Some (CHR ''/'')
                      else if e = CHR ''b'' then Some (CHR 0x08)
                      else if e = CHR ''f'' then Some (CHR 0x0C)
                      else if e = CHR ''n'' then Some (CHR 0x0A)
                      else if e = CHR ''r'' then Some (CHR 0x0D)
                      else if e = CHR ''t'' then Some (CHR 0x09)
                      else None) of
                  None \<Rightarrow> None
                | Some x \<Rightarrow> map_option (\<lambda>(s, r). (x # s, r)) (parse_chars cs')))
      else if (of_char c :: nat) < 32 then None
      else map_option (\<lambda>(s, r). (c # s, r)) (parse_chars cs))"

text \<open>An integer literal: an optional minus, then \<open>0\<close> or digits not starting with \<open>0\<close>.\<close>

definition parse_number :: "string \<Rightarrow> (jsval \<times> string) option" where
  "parse_number cs =
     (let (neg, ds) = (case cs of c # r \<Rightarrow> if c = CHR ''-'' then (True, r) else (False, cs)
                                 | [] \<Rightarrow> (False, cs));
          digits = takeWhile is_digit ds;
          rest = dropWhile is_digit ds;
          n = foldl (\<lambda>a d. 10 * a + int (digit_value d)) 0 digits
      in if digits = [] \<or> (length digits > 1 \<and> hd digits = CHR ''0'') then None
         else if rest \<noteq> [] \<and> (hd rest = CHR ''.'' \<or> hd rest = CHR ''e'' \<or> hd rest = CHR ''E'')
           then None
         else Some (JNumber (if neg then - n else n), rest))"

text \<open>
  Values, array elements and object members, by recursive descent. The first argument
  bounds the calls still allowed, and running out of it is \<open>None\<close>; \<open>JSON_parse\<close> starts
  with twice the length of the text and two more.
\<close>

fun parse_value :: "nat \<Rightarrow> string \<Rightarrow> (jsval \<times> string) option"
  and parse_elements :: "nat \<Rightarrow> string \<Rightarrow> (jsval list \<times> string) option"
  and parse_members :: "nat \<Rightarrow> string \<Rightarrow> ((string \<times> jsval) list \<times> string) option" where
  "parse_value 0 cs = None"
| "parse_value (Suc n) cs =
     (case skip_ws cs of
        [] \<Rightarrow> None
      | c # rest \<Rightarrow>
          if c = CHR 0x22 then map_option (\<lambda>(s, r). (JString s, r)) (parse_chars rest)
          else if c = CHR ''['' then
            (case skip_ws rest of
               [] \<Rightarrow> None
             | d # r \<Rightarrow>
                 if d = CHR '']'' then Some (JArray [], r)
                 else map_option (\<lambda>(xs, r'). (JArray xs, r')) (parse_elements n rest))
          else if c = CHR ''{'' then
            (case skip_ws rest of
               [] \<Rightarrow> None
             | d # r \<Rightarrow>
                 if d = CHR ''}'' then Some (JObject [], r)
                 else map_option (\<lambda>(ps, r'). (JObject ps, r')) (parse_members n rest))
          else if startsWith (c # rest) ''true'' then Some (JBool True, drop 4 (c # rest))
          else if startsWith (c # rest) ''false'' then Some (JBool False, drop 5 (c # rest))
          else if startsWith (c # rest) ''null'' then Some (JNull, drop 4 (c # rest))
          else parse_number (c # rest))"
| "parse_elements 0 cs = None"
| "parse_elements (Suc n) cs =
     (case parse_value n cs of
        None \<Rightarrow> None
      | Some (v, r) \<Rightarrow>
          (case skip_ws r of
             [] \<Rightarrow> None
           | d # r' \<Rightarrow>
               if d = CHR '','' then
                 map_option (\<lambda>(vs, r''). (v # vs, r'')) (parse_elements n r')
               else if d = CHR '']'' then Some ([v], r')
               else None))"
| "parse_members 0 cs = None"
| "parse_members (Suc n) cs =
     (case skip_ws cs of
        [] \<Rightarrow> None
      | q # r0 \<Rightarrow>
          if q \<noteq> CHR 0x22 then None
          else
            (case parse_chars r0 of
               None \<Rightarrow> None
             | Some (k, r1) \<Rightarrow>
                 (case skip_ws r1 of
                    [] \<Rightarrow> None
                  | colon # r2 \<Rightarrow>
                      if colon \<noteq> CHR '':'' then None
                      else
                        (case parse_value n r2 of
                           None \<Rightarrow> None
                         | Some (v, r3) \<Rightarrow>
                             (case skip_ws r3 of
                                [] \<Rightarrow> None
                              | d # r4 \<Rightarrow>
                                  if d = CHR '','' then
                                    map_option (\<lambda>(ps, r5). ((k, v) # ps, r5)) (parse_members n r4)
                                  else if d = CHR ''}'' then Some ([(k, v)], r4)
                                  else None)))))"



section \<open>The key-value store\<close>

definition isStorageAvailable :: "local_storage \<Rightarrow> bool \<times> local_storage" where
  "isStorageAvailable st =
     (case localStorage_setItem ''__storage_test__'' ''__storage_test__'' st of
        Inl e \<Rightarrow> (False, st)
      | Inr st1 \<Rightarrow> (True, localStorage_removeItem ''__storage_test__'' st1))"



definition removeItem :: "string \<Rightarrow> local_storage \<Rightarrow> bool \<times> local_storage" where
  "removeItem key st =
     (case isStorageAvailable st of
        (False, st1) \<Rightarrow> (False, st1)
      | (True, st1) \<Rightarrow> (True, localStorage_removeItem key st1))"




section \<open>The Grade 2 page: cards and markdown-lite\<close>

text \<open>
  Strings are sequences of code units below 256. An absent field of the manifest is
  \<open>None\<close> (\<open>undefined\<close>); a template literal prints it as \<open>undefined\<close>.
\<close>

definition nl :: string where
  "nl = [CHR 0x0A]"

definition interpolate :: "string option \<Rightarrow> string" where
  "interpolate v = (case v of None \<Rightarrow> ''undefined'' | Some s \<Rightarrow> s)"

subsection \<open>escapeHtml\<close>

text \<open>
  \<open>div.textContent = text; return div.innerHTML\<close> serialises a text node: the ampersand,
  the angle brackets and the no-break space become entities, nothing else changes.
\<close>

definition escape_char :: "char \<Rightarrow> string" where
  "escape_char c =
     (if c = CHR ''&'' then ''&amp;''
      else if c = CHR ''<'' then ''&lt;''
      else if c = CHR ''>'' then ''&gt;''
      else if c = CHR 0xA0 then ''&nbsp;''
      else [c])"

definition escapeHtml :: "string option \<Rightarrow> string" where
  "escapeHtml text =
     (case text of
        None \<Rightarrow> []
      | Some s \<Rightarrow> if s = [] then [] else concat (map escape_char s))"

subsection \<open>Activity cards\<close>

record activity_entry =
  act_id :: "string option"
  act_icon :: "string option"
  act_path :: "string option"
  act_title :: "string option"
  act_description :: "string option"

text \<open>\<open>window.i18n\<close> may be missing: \<open>window.i18n?.t(key)\<close> is then \<open>undefined\<close>.\<close>

definition getTranslation :: "js_env \<Rightarrow> i18n option \<Rightarrow> string \<Rightarrow> string option \<Rightarrow> string
    \<Rightarrow> js_error + string option" where
  "getTranslation env win type ident field =
     (let i18nKey = ''section.'' @ type @ ''.'' @ interpolate ident @ ''.'' @ field
      in case win of
           None \<Rightarrow> Inr None
         | Some s \<Rightarrow>
             (case t env s i18nKey of
                Inl e \<Rightarrow> Inl e
              | Inr translated \<Rightarrow>
                  if translated \<noteq> [] \<and> translated \<noteq> i18nKey then Inr (Some translated)
                  else Inr None))"

definition renderActivityCard :: "js_env \<Rightarrow> i18n option \<Rightarrow> activity_entry \<Rightarrow> js_error + string" where
  "renderActivityCard env win a =
     (case getTranslation env win ''activities'' (act_id a) ''title'' of
        Inl e \<Rightarrow> Inl e
      | Inr tr_title \<Rightarrow>
     (case getTranslation env win ''activities'' (act_id a) ''description'' of
        Inl e \<Rightarrow> Inl e
      | Inr tr_description \<Rightarrow>
          (let title = (case tr_title of Some x \<Rightarrow> Some x | None \<Rightarrow> act_title a);
               description = (case tr_description of Some x \<Rightarrow> Some x | None \<Rightarrow> act_description a)
           in Inr (nl @ ''      <a href=\"'' @ escapeHtml (act_path a)
                      @ ''\" class=\"activity-card\" data-activity=\"'' @ interpolate (act_id a)
                      @ ''\">'' @ nl
                   @ ''        <div class=\"activity-icon\">'' @ interpolate (act_icon a)
                      @ ''</div>'' @ nl
                   @ ''        <h3 class=\"activity-title\">'' @ escapeHtml title @ ''</h3>'' @ nl
                   @ ''        <p class=\"activity-description\">'' @ escapeHtml description
                      @ ''</p>'' @ nl
                   @ ''      </a>'' @ nl
                   @ ''    ''))))"

subsection \<open>formatInlineMarkdown\<close>

text \<open>
  Each \<open>replace\<close> with a global regular expression scans from the left; where the
  expression matches, the match is replaced and the scan goes on behind it, elsewhere the
  character is kept. \<open>[^x]+\<close> is greedy and what follows it starts with \<open>x\<close>, so the
  only candidate is the longest run.
\<close>

definition placeholder :: "nat \<Rightarrow> string" where
  "placeholder n = [CHR 0x00] @ ''HTML'' @ show_nat n @ [CHR 0x00]"

text \<open>
  The tag pattern (an opening angle bracket, a run of characters other than the closing
  one, the closing one): every tag is moved to \<open>htmlTags\<close>, a numbered placeholder put
  in its place.
\<close>

function preserve_tags :: "string list \<Rightarrow> string \<Rightarrow> string \<times> string list" where
  "preserve_tags htmlTags [] = ([], htmlTags)"
| "preserve_tags htmlTags (c # cs) =
     (if c = CHR ''<'' \<and> takeWhile (\<lambda>x. x \<noteq> CHR ''>'') cs \<noteq> []
         \<and> dropWhile (\<lambda>x. x \<noteq> CHR ''>'') cs \<noteq> []
      then (case preserve_tags
                   (htmlTags @ [c # takeWhile (\<lambda>x. x \<noteq> CHR ''>'') cs @ ''>''])
                   (tl (dropWhile (\<lambda>x. x \<noteq> CHR ''>'') cs)) of
              (out, tags) \<Rightarrow> (placeholder (length htmlTags) @ out, tags))
      else (case preserve_tags htmlTags cs of (out, tags) \<Rightarrow> (c # out, tags)))"
  by pat_completeness auto
termination
  by (relation "measure (\<lambda>(htmlTags, s). length s)")
     (auto intro: le_imp_less_Suc order_trans[OF diff_le_self] length_dropWhile_le)

definition replace_char :: "char \<Rightarrow> string \<Rightarrow> string \<Rightarrow> string" where
  "replace_char c r s = concat (map (\<lambda>x. if x = c then r else [x]) s)"

text \<open>
  The bold pattern (two stars, a run of characters other than the star, two stars)
  becomes a \<open>strong\<close> element.
\<close>

function format_bold :: "string \<Rightarrow> string" where
  "format_bold [] = []"
| "format_bold (c # cs) =
     (if startsWith (c # cs) ''**''
         \<and> takeWhile (\<lambda>x. x \<noteq> CHR ''*'') (drop 2 (c # cs)) \<noteq> []
         \<and> startsWith (dropWhile (\<lambda>x. x \<noteq> CHR ''*'') (drop 2 (c # cs))) ''**''
      then ''<strong>'' @ takeWhile (\<lambda>x. x \<noteq> CHR ''*'') (drop 2 (c # cs)) @ ''</strong>''
           @ format_bold (drop 2 (dropWhile (\<lambda>x. x \<noteq> CHR ''*'') (drop 2 (c # cs))))
      else c # format_bold cs)"
  by pat_completeness auto
termination
proof (relation "measure length", goal_cases)
  case 1
  show ?case by simp
next
  case (2 c cs)
  have "length (dropWhile (\<lambda>x. x \<noteq> CHR ''*'') (drop 2 (c # cs))) \<le> length (drop 2 (c # cs))"
    by (rule length_dropWhile_le)
  then show ?case by simp
next
  case (3 c cs)
  show ?case by simp
qed

text \<open>
  The italic pattern (a star not preceded by a star, a run of characters other than the
  star, a star not followed by a star) becomes an \<open>em\<close> element; \<open>prev\<close> is the
  character before the position, which the look-behind reads.
\<close>

function format_italic :: "char option \<Rightarrow> string \<Rightarrow> string" where
  "format_italic prev [] = []"
| "format_italic prev (c # cs) =
     (if c = CHR ''*'' \<and> prev \<noteq> Some (CHR ''*'')
         \<and> takeWhile (\<lambda>x. x \<noteq> CHR ''*'') cs \<noteq> []
         \<and> dropWhile (\<lambda>x. x \<noteq> CHR ''*'') cs \<noteq> []
         \<and> \<not> startsWith (tl (dropWhile (\<lambda>x. x \<noteq> CHR ''*'') cs)) ''*''
      then ''<em>'' @ takeWhile (\<lambda>x. x \<noteq> CHR ''*'') cs @ ''</em>''
           @ format_italic (Some (CHR ''*'')) (tl (dropWhile (\<lambda>x. x \<noteq> CHR ''*'') cs))
      else c # format_italic (Some c) cs)"
  by pat_completeness auto
termination
  by (relation "measure (\<lambda>(prev, s). length s)")
     (auto intro: le_imp_less_Suc order_trans[OF diff_le_self] length_dropWhile_le)

text \<open>
  The code pattern (a backtick, a run of characters other than the backtick, a backtick)
  becomes a \<open>code\<close> element.
\<close>

function format_code :: "string \<Rightarrow> string" where
  "format_code [] = []"
| "format_code (c # cs) =
     (if c = CHR 0x60 \<and> takeWhile (\<lambda>x. x \<noteq> CHR 0x60) cs \<noteq> []
         \<and> dropWhile (\<lambda>x. x \<noteq> CHR 0x60) cs \<noteq> []
      then ''<code>'' @ takeWhile (\<lambda>x. x \<noteq> CHR 0x60) cs @ ''</code>''
           @ format_code (tl (dropWhile (\<lambda>x. x \<noteq> CHR 0x60) cs))
      else c # format_code cs)"
  by pat_completeness auto
termination
  by (relation "measure length")
     (auto intro: le_imp_less_Suc order_trans[OF diff_le_self] length_dropWhile_le)

text \<open>
  The placeholder pattern (a zero character, \<open>HTML\<close>, digits, a zero character): a
  placeholder becomes \<open>htmlTags[parseInt(index)]\<close>, which prints as \<open>undefined\<close> when
  the index is out of range.
\<close>

definition parseInt :: "string \<Rightarrow> nat" where
  "parseInt ds = foldl (\<lambda>a d. 10 * a + digit_value d) 0 ds"

function restore_tags :: "string list \<Rightarrow> string \<Rightarrow> string" where
  "restore_tags htmlTags [] = []"
| "restore_tags htmlTags (c # cs) =
     (if startsWith (c # cs) (CHR 0x00 # ''HTML'')
         \<and> takeWhile is_digit (drop 5 (c # cs)) \<noteq> []
         \<and> startsWith (dropWhile is_digit (drop 5 (c # cs))) [CHR 0x00]
      then (if parseInt (takeWhile is_digit (drop 5 (c # cs))) < length htmlTags
            then htmlTags ! parseInt (takeWhile is_digit (drop 5 (c # cs)))
            else ''undefined'')
           @ restore_tags htmlTags (tl (dropWhile is_digit (drop 5 (c # cs))))
      else c # restore_tags htmlTags cs)"
  by pat_completeness auto
termination
proof (relation "measure (\<lambda>(htmlTags, s). length s)", goal_cases)
  case 1
  show ?case by simp
next
  case (2 htmlTags c cs)
  have "length (dropWhile is_digit (drop 5 (c # cs))) \<le> length (drop 5 (c # cs))"
    by (rule length_dropWhile_le)
  then show ?case by simp
next
  case (3 htmlTags c cs)
  show ?case by simp
qed

definition formatInlineMarkdown :: "string \<Rightarrow> string" where
  "formatInlineMarkdown text =
     (case preserve_tags [] text of
        (preservedText, htmlTags) \<Rightarrow>
          restore_tags htmlTags
            (format_code
              (format_italic None
                (format_bold
                  (replace_char (CHR ''>'') ''&gt;''
                    (replace_char (CHR ''<'') ''&lt;''
                      (replace_char (CHR ''&'') ''&amp;'' preservedText)))))))"

subsection \<open>parseTryAtHomeContent\<close>

text \<open>
  What \<open>trim\<close> and the white-space class of a regular expression take as white space,
  and what the dot of a regular expression does not match.
\<close>

definition js_space :: "char \<Rightarrow> bool" where
  "js_space c = (c = CHR 0x09 \<or> c = CHR 0x0A \<or> c = CHR 0x0B \<or> c = CHR 0x0C \<or> c = CHR 0x0D
                 \<or> c = CHR 0x20 \<or> c = CHR 0xA0)"

definition line_terminator :: "char \<Rightarrow> bool" where
  "line_terminator c = (c = CHR 0x0A \<or> c = CHR 0x0D)"

definition trim :: "string \<Rightarrow> string" where
  "trim s = rev (dropWhile js_space (rev (dropWhile js_space s)))"

record block =
  block_title :: string
  block_description :: string

text \<open>
  The title pattern, matched against the whole trimmed line: a star, a space, two stars,
  a run of characters other than the star (the first group), two stars, white space, and
  optionally the rest (the second group). The result is the two groups, the second
  \<open>None\<close> when it took part in no match. After the greedy white space the rest must be
  free of line terminators for the dot to reach the end of the line.
\<close>

definition match_title :: "string \<Rightarrow> (string \<times> string option) option" where
  "match_title line =
     (if startsWith line ''* **''
         \<and> takeWhile (\<lambda>x. x \<noteq> CHR ''*'') (drop 4 line) \<noteq> []
         \<and> startsWith (dropWhile (\<lambda>x. x \<noteq> CHR ''*'') (drop 4 line)) ''**''
      then (let rest = dropWhile js_space
                         (drop 2 (dropWhile (\<lambda>x. x \<noteq> CHR ''*'') (drop 4 line)))
            in if list_ex line_terminator rest then None
               else Some (takeWhile (\<lambda>x. x \<noteq> CHR ''*'') (drop 4 line),
                          if rest = [] then None else Some rest))
      else None)"

definition renderTryAtHomeBlock :: "block \<Rightarrow> string" where
  "renderTryAtHomeBlock b =
     nl @ ''      <div class=\"try-at-home-item\">'' @ nl
     @ ''        <strong>'' @ block_title b @ ''</strong>'' @ nl
     @ ''        <p>'' @ block_description b @ ''</p>'' @ nl
     @ ''      </div>'' @ nl
     @ ''    ''"

text \<open>The body of \<open>lines.forEach\<close>, on the pair of \<open>result\<close> and \<open>currentBlock\<close>.\<close>

definition tryAtHome_line :: "string list \<times> block option \<Rightarrow> string \<Rightarrow> string list \<times> block option" where
  "tryAtHome_line state line =
     (case state of (result, currentBlock) \<Rightarrow>
        (let trimmedLine = trim line
         in if startsWith trimmedLine ''* **'' then
              (let result1 = (case currentBlock of
                                None \<Rightarrow> result
                              | Some b \<Rightarrow> result @ [renderTryAtHomeBlock b])
               in case match_title trimmedLine of
                    None \<Rightarrow> (result1, currentBlock)
                  | Some (title, rest) \<Rightarrow>
                      (result1,
                       Some \<lparr>block_title = title,
                             block_description =
                               (case rest of
                                  None \<Rightarrow> []
                                | Some r \<Rightarrow> formatInlineMarkdown r)\<rparr>))
            else
              (case currentBlock of
                 None \<Rightarrow> (result, currentBlock)
               | Some b \<Rightarrow>
                   if trimmedLine \<noteq> [] then
                     (result,
                      Some (b\<lparr>block_description :=
                                (if block_description b \<noteq> [] then block_description b @ '' ''
                                 else block_description b)
                                @ formatInlineMarkdown trimmedLine\<rparr>))
                   else (result, currentBlock))))"

definition tryAtHome_blocks :: "string \<Rightarrow> string list \<times> block option" where
  "tryAtHome_blocks content = foldl tryAtHome_line ([], None) (split_on (CHR 0x0A) content)"

definition parseTryAtHomeContent :: "string \<Rightarrow> string" where
  "parseTryAtHomeContent content =
     (if content = [] then []
      else (case tryAtHome_blocks content of
              (result, currentBlock) \<Rightarrow>
                concat (case currentBlock of
                          None \<Rightarrow> result
                        | Some b \<Rightarrow> result @ [renderTryAtHomeBlock b])))"

subsection \<open>Example manifest entries\<close>

definition script_title_entry :: activity_entry where
  "script_title_entry =
     \<lparr> act_id = Some ''count-berries'', act_icon = Some ''*'',
       act_path = Some ''activities/count-berries.html'',
       act_title = Some ''<script>alert(1)</script>'',
       act_description = Some ''Count & compare'' \<rparr>"

definition script_id_entry :: activity_entry where
  "script_id_entry =
     \<lparr> act_id = Some ''\"><script>alert(1)</script>'', act_icon = Some ''*'',
       act_path = Some ''activities/count-berries.html'',
       act_title = Some ''Count berries'',
       act_description = Some ''Count & compare'' \<rparr>"

section \<open>Verification: the activity engine\<close>

subsection \<open>Score keeping\<close>

lemma showFeedback_score [simp]:
  "round_no (showFeedback m e d s) = round_no s"
  "maxRounds (showFeedback m e d s) = maxRounds s"
  "correctCount (showFeedback m e d s) = correctCount s"
  "wrongCount (showFeedback m e d s) = wrongCount s"
  by (simp_all add: showFeedback_def Let_def split: option.splits)

lemma hideFeedback_score [simp]:
  "round_no (hideFeedback s) = round_no s"
  "maxRounds (hideFeedback s) = maxRounds s"
  "correctCount (hideFeedback s) = correctCount s"
  "wrongCount (hideFeedback s) = wrongCount s"
  by (simp_all add: hideFeedback_def split: option.splits)

lemma showStats_score [simp]:
  "round_no (showStats s) = round_no s"
  "maxRounds (showStats s) = maxRounds s"
  "correctCount (showStats s) = correctCount s"
  "wrongCount (showStats s) = wrongCount s"
  by (simp_all add: showStats_def Let_def split: option.splits)

lemma recordCorrect_score [simp]:
  "round_no (recordCorrect m s) = round_no s"
  "maxRounds (recordCorrect m s) = maxRounds s"
  "correctCount (recordCorrect m s) = correctCount s + 1"
  "wrongCount (recordCorrect m s) = wrongCount s"
  by (simp_all add: recordCorrect_def Let_def split: option.splits)

lemma recordWrong_score [simp]:
  "round_no (recordWrong m s) = round_no s"
  "maxRounds (recordWrong m s) = maxRounds s"
  "correctCount (recordWrong m s) = correctCount s"
  "wrongCount (recordWrong m s) = wrongCount s + 1"
  by (simp_all add: recordWrong_def Let_def split: option.splits)








text \<open>
  The second discipline is needed: \<open>nextRound\<close> itself does not look at \<open>maxRounds\<close>. In
  an activity of one round, a wrong answer, \<open>nextRound\<close> by hand and a wrong answer to the
  round after the last is one report per round, and two reports for one configured round.
\<close>

lemma nextRound_past_last_round:
  "reported_once renderProgress (page_activity 1) False past_the_last_round
   \<and> \<not> advances_within renderProgress (page_activity 1) past_the_last_round
   \<and> maxRounds (run renderProgress past_the_last_round (page_activity 1)) = 1
   \<and> round_no (run renderProgress past_the_last_round (page_activity 1)) = 2
   \<and> correctCount (run renderProgress past_the_last_round (page_activity 1))
       + wrongCount (run renderProgress past_the_last_round (page_activity 1)) = 2"
  by (simp add: past_the_last_round_def page_activity_def new_activity_def recordWrong_def
      nextRound_def renderProgress_def)




subsection \<open>The progress indicator\<close>

lemma nth_map_upt_from_one:
  assumes "1 \<le> i" and "i \<le> n"
  shows "map f [1..<Suc n] ! (i - 1) = f i"
proof -
  from assms have l: "i - 1 < length [1..<Suc n]" by simp
  from assms have "1 + (i - 1) < Suc n" by simp
  then have "[1..<Suc n] ! (i - 1) = 1 + (i - 1)" by (rule nth_upt)
  with assms have "[1..<Suc n] ! (i - 1) = i" by simp
  with nth_map[OF l, of f] show ?thesis by simp
qed

lemma renderProgress_loop_cells:
  "renderProgress_loop s i html
     = html @ concat (map (\<lambda>k. dot_html (className s k)) [i..<Suc (maxRounds s)])"
proof (induction s i html rule: renderProgress_loop.induct)
  case (1 s i html)
  show ?case
  proof (cases "i \<le> maxRounds s")
    case True
    then have "[i..<Suc (maxRounds s)] = i # [Suc i..<Suc (maxRounds s)]"
      by (simp add: upt_conv_Cons)
    with 1 True show ?thesis
      by (subst renderProgress_loop.simps) simp
  next
    case False
    then show ?thesis by (subst renderProgress_loop.simps) simp
  qed
qed

lemma renderProgress_loop_cells':
  "renderProgress_loop' s i html
     = html @ concat (map (\<lambda>k. dot_html (className' s k)) [i..<Suc (totalRounds s)])"
proof (induction s i html rule: renderProgress_loop'.induct)
  case (1 s i html)
  show ?case
  proof (cases "i \<le> totalRounds s")
    case True
    then have "[i..<Suc (totalRounds s)] = i # [Suc i..<Suc (totalRounds s)]"
      by (simp add: upt_conv_Cons)
    with 1 True show ?thesis
      by (subst renderProgress_loop'.simps) simp
  next
    case False
    then show ?thesis by (subst renderProgress_loop'.simps) simp
  qed
qed

text \<open>
  C5 (as the code has it). Both base classes render exactly as many cells as there are
  rounds. The unified class marks cell \<open>i\<close> completed iff \<open>i\<close> is below the current round
  or is the current round with \<open>isAnswered\<close> set, current iff it is the current round
  and unanswered, and plain otherwise. The Pre-K class reads no flag: cell \<open>i\<close> is
  completed iff \<open>i\<close> is below the round, current iff it is the round.
\<close>

theorem renderProgress_cells:
  "(progress' u = Some q \<longrightarrow>
      (\<exists>cells. map_option innerHTML (progress' (renderProgress' u))
                 = Some (concat (map dot_html cells))
         \<and> length cells = totalRounds u
         \<and> (\<forall>i. 1 \<le> i \<and> i \<le> totalRounds u \<longrightarrow>
               (cells ! (i - 1) = ''progress-dot completed'')
                 = (i < currentRound u \<or> (i = currentRound u \<and> isAnswered u))
             \<and> (cells ! (i - 1) = ''progress-dot current'')
                 = (i = currentRound u \<and> \<not> isAnswered u)
             \<and> (cells ! (i - 1) = ''progress-dot'')
                 = (currentRound u < i))))
   \<and> (progress s = Some p \<longrightarrow>
      (\<exists>cells. map_option innerHTML (progress (renderProgress s))
                 = Some (concat (map dot_html cells))
         \<and> length cells = maxRounds s
         \<and> (\<forall>i. 1 \<le> i \<and> i \<le> maxRounds s \<longrightarrow>
               (cells ! (i - 1) = ''progress-dot completed'') = (i < round_no s)
             \<and> (cells ! (i - 1) = ''progress-dot current'') = (i = round_no s)
             \<and> (cells ! (i - 1) = ''progress-dot'') = (round_no s < i))))"
proof (intro conjI impI)
  assume "progress' u = Some q"
  let ?cells = "map (className' u) [1..<Suc (totalRounds u)]"
  have "map_option innerHTML (progress' (renderProgress' u)) = Some (concat (map dot_html ?cells))"
    using \<open>progress' u = Some q\<close>
    by (simp add: renderProgress'_def renderProgress_loop_cells' comp_def)
  moreover have "length ?cells = totalRounds u" by simp
  moreover have "\<forall>i. 1 \<le> i \<and> i \<le> totalRounds u \<longrightarrow>
               (?cells ! (i - 1) = ''progress-dot completed'')
                 = (i < currentRound u \<or> (i = currentRound u \<and> isAnswered u))
             \<and> (?cells ! (i - 1) = ''progress-dot current'')
                 = (i = currentRound u \<and> \<not> isAnswered u)
             \<and> (?cells ! (i - 1) = ''progress-dot'')
                 = (currentRound u < i)"
  proof (intro allI impI)
    fix i assume i: "1 \<le> i \<and> i \<le> totalRounds u"
    then have "?cells ! (i - 1) = className' u i" by (intro nth_map_upt_from_one) simp_all
    then show "(?cells ! (i - 1) = ''progress-dot completed'')
                 = (i < currentRound u \<or> (i = currentRound u \<and> isAnswered u))
             \<and> (?cells ! (i - 1) = ''progress-dot current'')
                 = (i = currentRound u \<and> \<not> isAnswered u)
             \<and> (?cells ! (i - 1) = ''progress-dot'')
                 = (currentRound u < i)"
      by (auto simp add: className'_def)
  qed
  ultimately show "\<exists>cells. map_option innerHTML (progress' (renderProgress' u))
                 = Some (concat (map dot_html cells))
         \<and> length cells = totalRounds u
         \<and> (\<forall>i. 1 \<le> i \<and> i \<le> totalRounds u \<longrightarrow>
               (cells ! (i - 1) = ''progress-dot completed'')
                 = (i < currentRound u \<or> (i = currentRound u \<and> isAnswered u))
             \<and> (cells ! (i - 1) = ''progress-dot current'')
                 = (i = currentRound u \<and> \<not> isAnswered u)
             \<and> (cells ! (i - 1) = ''progress-dot'')
                 = (currentRound u < i))"
    by blast
next
  assume "progress s = Some p"
  let ?cells = "map (className s) [1..<Suc (maxRounds s)]"
  have "map_option innerHTML (progress (renderProgress s)) = Some (concat (map dot_html ?cells))"
    using \<open>progress s = Some p\<close>
    by (simp add: renderProgress_def renderProgress_loop_cells comp_def)
  moreover have "length ?cells = maxRounds s" by simp
  moreover have "\<forall>i. 1 \<le> i \<and> i \<le> maxRounds s \<longrightarrow>
               (?cells ! (i - 1) = ''progress-dot completed'') = (i < round_no s)
             \<and> (?cells ! (i - 1) = ''progress-dot current'') = (i = round_no s)
             \<and> (?cells ! (i - 1) = ''progress-dot'') = (round_no s < i)"
  proof (intro allI impI)
    fix i assume i: "1 \<le> i \<and> i \<le> maxRounds s"
    then have "?cells ! (i - 1) = className s i" by (intro nth_map_upt_from_one) simp_all
    then show "(?cells ! (i - 1) = ''progress-dot completed'') = (i < round_no s)
             \<and> (?cells ! (i - 1) = ''progress-dot current'') = (i = round_no s)
             \<and> (?cells ! (i - 1) = ''progress-dot'') = (round_no s < i)"
      by (auto simp add: className_def)
  qed
  ultimately show "\<exists>cells. map_option innerHTML (progress (renderProgress s))
                 = Some (concat (map dot_html cells))
         \<and> length cells = maxRounds s
         \<and> (\<forall>i. 1 \<le> i \<and> i \<le> maxRounds s \<longrightarrow>
               (cells ! (i - 1) = ''progress-dot completed'') = (i < round_no s)
             \<and> (cells ! (i - 1) = ''progress-dot current'') = (i = round_no s)
             \<and> (cells ! (i - 1) = ''progress-dot'') = (round_no s < i))"
    by blast
qed

theorem renderProgress_cells_witness:
  "progress' answered_second_of_three = Some blank_element
   \<and> progress (page_activity 3) = Some blank_element
   \<and> (\<exists>cells. map_option innerHTML (progress' (renderProgress' answered_second_of_three))
                 = Some (concat (map dot_html cells))
         \<and> length cells = 3
         \<and> cells ! 0 = ''progress-dot completed''
         \<and> cells ! 1 = ''progress-dot completed''
         \<and> cells ! 2 = ''progress-dot'')
   \<and> (\<exists>cells. map_option innerHTML (progress (renderProgress (page_activity 3)))
                 = Some (concat (map dot_html cells))
         \<and> length cells = 3
         \<and> cells ! 0 = ''progress-dot current''
         \<and> cells ! 1 = ''progress-dot''
         \<and> cells ! 2 = ''progress-dot'')"
proof -
  have u: "progress' answered_second_of_three = Some blank_element"
    "totalRounds answered_second_of_three = 3" "currentRound answered_second_of_three = 2"
    "isAnswered answered_second_of_three"
    by (simp_all add: answered_second_of_three_def)
  have s: "progress (page_activity 3) = Some blank_element"
    "maxRounds (page_activity 3) = 3" "round_no (page_activity 3) = 1"
    by (simp_all add: page_activity_def new_activity_def)
  note t = renderProgress_cells[of answered_second_of_three blank_element
      "page_activity 3" blank_element]
  from t u(1) obtain cu where cu:
    "map_option innerHTML (progress' (renderProgress' answered_second_of_three))
       = Some (concat (map dot_html cu))"
    "length cu = totalRounds answered_second_of_three"
    "\<forall>i. 1 \<le> i \<and> i \<le> totalRounds answered_second_of_three \<longrightarrow>
               (cu ! (i - 1) = ''progress-dot completed'')
                 = (i < currentRound answered_second_of_three
                    \<or> (i = currentRound answered_second_of_three
                        \<and> isAnswered answered_second_of_three))
             \<and> (cu ! (i - 1) = ''progress-dot current'')
                 = (i = currentRound answered_second_of_three
                    \<and> \<not> isAnswered answered_second_of_three)
             \<and> (cu ! (i - 1) = ''progress-dot'')
                 = (currentRound answered_second_of_three < i)"
    by blast
  from cu(3)[rule_format, of 1] cu(3)[rule_format, of 2] cu(3)[rule_format, of 3]
  have "cu ! 0 = ''progress-dot completed''" "cu ! 1 = ''progress-dot completed''"
    "cu ! 2 = ''progress-dot''"
    by (simp_all add: u)
  with cu(1,2) have a: "\<exists>cells. map_option innerHTML (progress' (renderProgress' answered_second_of_three))
                 = Some (concat (map dot_html cells))
         \<and> length cells = 3
         \<and> cells ! 0 = ''progress-dot completed''
         \<and> cells ! 1 = ''progress-dot completed''
         \<and> cells ! 2 = ''progress-dot''"
    by (auto simp add: u)
  from t s(1) obtain cs where cs:
    "map_option innerHTML (progress (renderProgress (page_activity 3)))
       = Some (concat (map dot_html cs))"
    "length cs = maxRounds (page_activity 3)"
    "\<forall>i. 1 \<le> i \<and> i \<le> maxRounds (page_activity 3) \<longrightarrow>
               (cs ! (i - 1) = ''progress-dot completed'') = (i < round_no (page_activity 3))
             \<and> (cs ! (i - 1) = ''progress-dot current'') = (i = round_no (page_activity 3))
             \<and> (cs ! (i - 1) = ''progress-dot'') = (round_no (page_activity 3) < i)"
    by blast
  from cs(3)[rule_format, of 1] cs(3)[rule_format, of 2] cs(3)[rule_format, of 3]
  have "cs ! 0 = ''progress-dot current''" "cs ! 1 = ''progress-dot''"
    "cs ! 2 = ''progress-dot''"
    by (simp_all add: s)
  with cs(1,2) have b: "\<exists>cells. map_option innerHTML (progress (renderProgress (page_activity 3)))
                 = Some (concat (map dot_html cells))
         \<and> length cells = 3
         \<and> cells ! 0 = ''progress-dot current''
         \<and> cells ! 1 = ''progress-dot''
         \<and> cells ! 2 = ''progress-dot''"
    by (auto simp add: s)
  from u(1) s(1) a b show ?thesis by blast
qed

text \<open>
  C5 (as stated) fails on the Pre-K class: once the first round has been answered
  (\<open>recordCorrect\<close> has set the round's flag), its cell is still drawn as current, not
  completed.
\<close>

theorem renderProgress_answered_counterexample:
  "isComplete (recordCorrect None (page_activity 3))
   \<and> round_no (recordCorrect None (page_activity 3)) = 1
   \<and> map_option innerHTML (progress (renderProgress (recordCorrect None (page_activity 3))))
       = Some (''<div class=\"progress-dot current\"></div>''
               @ ''<div class=\"progress-dot\"></div>''
               @ ''<div class=\"progress-dot\"></div>'')"
  by (simp add: page_activity_def new_activity_def recordCorrect_def renderProgress_def
      renderProgress_loop.simps className_def dot_html_def blank_element_def)



section \<open>Verification: the translation catalog\<close>

lemma js_in_object:
  "truthy v \<Longrightarrow> typeof_object v \<Longrightarrow>
   js_in env k v = Inr (own_property v k \<noteq> None \<or> inherited env v k \<noteq> None)"
  by (cases v) simp_all

lemma js_get_object:
  "truthy v \<Longrightarrow> typeof_object v \<Longrightarrow>
   js_get env v k =
     Inr (case own_property v k of
            Some x \<Rightarrow> x
          | None \<Rightarrow> (case inherited env v k of Some x \<Rightarrow> x | None \<Rightarrow> JUndefined))"
  by (cases v) (simp_all split: option.splits)

lemma t_fallback_loop_resolve:
  "t_fallback_loop env v ks = Inr (resolve env v ks)"
proof (induction ks arbitrary: v)
  case Nil
  show ?case by simp
next
  case (Cons k ks)
  show ?case
  proof (cases "truthy v \<and> typeof_object v")
    case True
    then show ?thesis
      by (auto simp add: js_in_object js_get_object Cons.IH split: option.splits)
  next
    case False
    then show ?thesis by auto
  qed
qed

lemma t_loop_resolve:
  "t_loop env s key keys v ks =
     (case resolve env v ks of
        Some v' \<Rightarrow> Inr (t_result key v')
      | None \<Rightarrow> t_try_fallback env s key keys)"
proof (induction ks arbitrary: v)
  case Nil
  show ?case by simp
next
  case (Cons k ks)
  show ?case
  proof (cases "truthy v \<and> typeof_object v")
    case True
    then show ?thesis
      by (auto simp add: js_in_object js_get_object Cons.IH split: option.splits)
  next
    case False
    then show ?thesis by auto
  qed
qed

lemma js_get_language_tree:
  "js_get env (JObject (translationTrees s)) lang = Inr (language_tree env s lang)"
  by (simp add: language_tree_def split: option.splits)

lemma t_try_fallback_resolve:
  "t_try_fallback env s key keys =
     Inr (if \<not> truthy (language_tree env s fallbackLang) then key
          else (case resolve env (language_tree env s fallbackLang) keys of
                  Some v \<Rightarrow> t_result key v
                | None \<Rightarrow> key))"
  by (simp add: t_try_fallback_def js_get_language_tree t_fallback_loop_resolve
      del: js_get.simps split: option.splits)

lemma t_refines_t_spec: "t env s key = Inr (t_spec env s key)"
  by (simp add: t_def t_spec_def Let_def js_get_language_tree t_loop_resolve
      t_try_fallback_resolve del: js_get.simps split: option.splits)

text \<open>
  C1. The lookup never throws, and it is the two-pass resolution of the specification
  as long as "missing" is read as the code tests it (\<open>t_refines_t_spec\<close>). But the test
  is \<open>in\<close>, which also finds what every object inherits: with the active bundle \<open>{}\<close> and
  the fallback bundle \<open>{"constructor": "Builder"}\<close>, the segment \<open>constructor\<close> is missing
  from the active tree and present in the fallback, yet \<open>t('constructor')\<close> returns the
  key and not the fallback string.
\<close>

theorem t_inherited_segment_not_missing:
  "currentLang inherited_key_catalog = ''vi''
   \<and> map_of (translationTrees inherited_key_catalog) ''vi'' = Some (JObject [])
   \<and> map_of (translationTrees inherited_key_catalog) fallbackLang
       = Some (JObject [(''constructor'', JString ''Builder'')])
   \<and> tree_resolve (JObject []) (split_on CHR ''.'' ''constructor'') = None
   \<and> tree_resolve (JObject [(''constructor'', JString ''Builder'')])
        (split_on CHR ''.'' ''constructor'') = Some (JString ''Builder'')
   \<and> t es5_env inherited_key_catalog ''constructor'' = Inr ''constructor''"
  by (simp add: t_def t_try_fallback_def t_result_def es5_env_def inherited_key_catalog_def
      blank_page_def fallbackLang_def)

text \<open>
  C10. When the whole path resolves in the active language's tree to something that is
  not a string, \<open>t\<close> returns the key. Nothing is asked of the fallback tree, so this
  holds whatever it contains.
\<close>

theorem t_non_string_returns_key:
  assumes "resolve env (language_tree env s (currentLang s)) (split_on CHR ''.'' key) = Some v"
    and "\<not> typeof_string v"
  shows "t env s key = Inr key"
proof -
  from assms(2) have "t_result key v = key"
    by (cases v) (simp_all add: t_result_def)
  with assms(1) show ?thesis
    by (simp add: t_refines_t_spec t_spec_def Let_def)
qed

theorem t_non_string_returns_key_witness:
  "resolve es5_env (language_tree es5_env structured_leaf_catalog (currentLang structured_leaf_catalog))
       (split_on CHR ''.'' ''tips'')
     = Some (JArray [JString ''Dem'', JString ''Ve''])
   \<and> \<not> typeof_string (JArray [JString ''Dem'', JString ''Ve''])
   \<and> resolve es5_env (language_tree es5_env structured_leaf_catalog fallbackLang)
       (split_on CHR ''.'' ''tips'')
     = Some (JString ''Tips'')
   \<and> t es5_env structured_leaf_catalog ''tips'' = Inr ''tips''"
proof -
  have r: "resolve es5_env (language_tree es5_env structured_leaf_catalog (currentLang structured_leaf_catalog))
       (split_on CHR ''.'' ''tips'')
     = Some (JArray [JString ''Dem'', JString ''Ve''])"
    by (simp add: structured_leaf_catalog_def language_tree_def)
  have n: "\<not> typeof_string (JArray [JString ''Dem'', JString ''Ve''])" by simp
  have f: "resolve es5_env (language_tree es5_env structured_leaf_catalog fallbackLang)
       (split_on CHR ''.'' ''tips'')
     = Some (JString ''Tips'')"
    by (simp add: structured_leaf_catalog_def language_tree_def fallbackLang_def)
  from t_non_string_returns_key[OF r n] r n f show ?thesis by simp
qed

subsection \<open>setLanguage\<close>

lemma language_tree_cong:
  "translationTrees s' = translationTrees s \<Longrightarrow> language_tree env s' l = language_tree env s l"
  by (simp add: language_tree_def split: option.splits)

lemma t_spec_cong:
  assumes "currentLang s' = currentLang s" and "translationTrees s' = translationTrees s"
  shows "t_spec env s' key = t_spec env s key"
  unfolding t_spec_def language_tree_cong[OF assms(2)] assms(1) ..

lemma translate_attr_cong:
  assumes "\<And>key. t_spec env s' key = t_spec env s key"
  shows "translate_attr a w env s' = translate_attr a w env s"
  by (rule ext) (simp add: translate_attr_def assms split: option.splits)

lemma translate_node_cong:
  assumes "currentLang s' = currentLang s" and "translationTrees s' = translationTrees s"
  shows "translate_node env s' = translate_node env s"
proof -
  have "translate_attr a w env s' = translate_attr a w env s" for a w
    by (rule translate_attr_cong) (rule t_spec_cong[OF assms])
  then show ?thesis by (simp add: translate_node_def fun_eq_iff)
qed

lemma apply_pass_map:
  "apply_pass attr write env s ns = Inr (map (translate_attr attr write env s) ns)"
  by (induction ns) (simp_all add: t_refines_t_spec translate_attr_def split: option.splits)

lemma own_or_undefined_update:
  "own_or_undefined (AList.update k v c) k' = (if k' = k then v else own_or_undefined c k')"
  by (simp add: own_or_undefined_def update_conv')

lemma map_of_update_other:
  "l \<noteq> k \<Longrightarrow> map_of (AList.update k v al) l = map_of al l"
  by (simp add: update_conv')

lemma getBasePath_cong:
  "isFileProtocol s' = isFileProtocol s \<Longrightarrow> pathname s' = pathname s \<Longrightarrow>
   getBasePath s' = getBasePath s"
  by (simp add: getBasePath_def)

lemma loadCommon_effects:
  assumes "map_of (cache s) lang = Some c"
  shows "\<exists>s' c'. loadCommon server lang s = (s', Fulfilled)
     \<and> currentLang s' = currentLang s \<and> storage s' = storage s \<and> html_lang s' = html_lang s
     \<and> dispatched s' = dispatched s \<and> nodes s' = nodes s \<and> pathname s' = pathname s
     \<and> isFileProtocol s' = isFileProtocol s \<and> document_title s' = document_title s
     \<and> requests s' = requests s
          @ (if truthy (own_or_undefined c ''common'') then []
             else [getBasePath s @ ''/'' @ lang @ ''/common.json''])
     \<and> map_of (cache s') lang = Some c'
     \<and> (\<forall>k. own_or_undefined c' k =
            (if k = ''common''
             then (case language_bundle server s lang ''common'' of
                     Some data \<Rightarrow> data
                   | None \<Rightarrow> own_or_undefined c k)
             else own_or_undefined c k))
     \<and> (\<forall>l. l \<noteq> lang \<longrightarrow> map_of (cache s') l = map_of (cache s) l)
     \<and> own_or_undefined (translationTrees s') lang =
          (case language_bundle server s lang ''common'' of
             Some data \<Rightarrow> JObject (spread data)
           | None \<Rightarrow>
               if truthy (own_or_undefined (translationTrees s) lang)
               then own_or_undefined (translationTrees s) lang
               else JObject [])
     \<and> (\<forall>l. l \<noteq> lang \<longrightarrow> map_of (translationTrees s') l = map_of (translationTrees s) l)"
proof (cases "truthy (own_or_undefined c ''common'')")
  case True
  with assms show ?thesis
    by (simp add: loadCommon_def language_bundle_def own_or_undefined_update map_of_update_other)
next
  case False
  show ?thesis
  proof (cases "server (getBasePath s @ ''/'' @ lang @ ''/common.json'')")
    case None
    with False assms show ?thesis
      by (simp add: loadCommon_def language_bundle_def Let_def own_or_undefined_update
          map_of_update_other)
  next
    case (Some data)
    with False assms show ?thesis
      by (simp add: loadCommon_def language_bundle_def Let_def own_or_undefined_update
          map_of_update_other update_conv')
  qed
qed

lemma loadSection_effects:
  assumes "map_of (cache s) lang = Some c"
  shows "\<exists>s' c'. loadSection server lang sectionName s = (s', Fulfilled)
     \<and> currentLang s' = currentLang s \<and> storage s' = storage s \<and> html_lang s' = html_lang s
     \<and> dispatched s' = dispatched s \<and> nodes s' = nodes s \<and> pathname s' = pathname s
     \<and> isFileProtocol s' = isFileProtocol s \<and> document_title s' = document_title s
     \<and> requests s' = requests s
          @ (if truthy (own_or_undefined c sectionName) then []
             else [getBasePath s @ ''/'' @ lang @ ''/'' @ sectionName @ ''.json''])
     \<and> map_of (cache s') lang = Some c'
     \<and> (\<forall>k. own_or_undefined c' k =
            (if k = sectionName
             then (case language_bundle server s lang sectionName of
                     Some data \<Rightarrow> data
                   | None \<Rightarrow> own_or_undefined c k)
             else own_or_undefined c k))
     \<and> (\<forall>l. l \<noteq> lang \<longrightarrow> map_of (cache s') l = map_of (cache s) l)
     \<and> own_or_undefined (translationTrees s') lang =
          (case language_bundle server s lang sectionName of
             Some data \<Rightarrow>
               JObject (AList.update ''section'' data
                          (spread (own_or_undefined (translationTrees s) lang)))
           | None \<Rightarrow> own_or_undefined (translationTrees s) lang)
     \<and> (\<forall>l. l \<noteq> lang \<longrightarrow> map_of (translationTrees s') l = map_of (translationTrees s) l)"
proof (cases "truthy (own_or_undefined c sectionName)")
  case True
  with assms show ?thesis
    by (simp add: loadSection_def language_bundle_def own_or_undefined_update map_of_update_other)
next
  case False
  show ?thesis
  proof (cases "server (getBasePath s @ ''/'' @ lang @ ''/'' @ sectionName @ ''.json'')")
    case None
    with False assms show ?thesis
      by (simp add: loadSection_def language_bundle_def Let_def)
  next
    case (Some data)
    with False assms show ?thesis
      by (simp add: loadSection_def language_bundle_def Let_def own_or_undefined_update
          map_of_update_other update_conv')
  qed
qed

lemma sections_not_common: "detect_in path secs = Some sec \<Longrightarrow> sec \<in> set secs"
  by (induction secs) (auto split: if_splits)

lemma detected_section_not_common: "detectCurrentSection s = Some sec \<Longrightarrow> sec \<noteq> ''common''"
proof
  assume d: "detectCurrentSection s = Some sec" and "sec = ''common''"
  then have "''common'' \<in> set sections"
    using sections_not_common[of "toLowerCase (pathname s)" sections sec]
    by (simp add: detectCurrentSection_def)
  then show False by (simp add: sections_def)
qed

lemma language_bundle_cong:
  assumes "map_of (cache s') lang = Some c'" and "map_of (cache s) lang = Some c"
    and "own_or_undefined c' name = own_or_undefined c name"
    and "isFileProtocol s' = isFileProtocol s" and "pathname s' = pathname s"
  shows "language_bundle server s' lang name = language_bundle server s lang name"
  using assms by (simp add: language_bundle_def getBasePath_cong[OF assms(4,5)])

lemma applyTranslations_result:
  "applyTranslations env s
     = Inr (s\<lparr>nodes := map (translate_node env s) (nodes s),
             document_title :=
               translated_title env (s\<lparr>nodes := map (translate_node env s) (nodes s)\<rparr>)
                 (document_title s)\<rparr>)"
proof -
  let ?ns = "map (translate_node env s) (nodes s)"
  let ?s1 = "s\<lparr>nodes := ?ns\<rparr>"
  have ns: "map (translate_attr data_i18n_title (\<lambda>tr n. n\<lparr>node_title := tr, node_aria_label := Some tr\<rparr>) env s)
     (map (translate_attr data_i18n_placeholder (\<lambda>tr n. n\<lparr>node_placeholder := tr\<rparr>) env s)
       (map (translate_attr data_i18n (\<lambda>tr n. n\<lparr>node_text := tr\<rparr>) env s) (nodes s))) = ?ns"
    by (simp add: translate_node_def comp_def)
  have a: "applyTranslations env s =
     (case filter (\<lambda>n. is_title n \<and> data_i18n n \<noteq> None) ?ns of
           [] \<Rightarrow> Inr ?s1
         | titleEl # _ \<Rightarrow>
             (case data_i18n titleEl of
                None \<Rightarrow> Inr ?s1
              | Some titleKey \<Rightarrow>
                  (case t env ?s1 titleKey of
                     Inl e \<Rightarrow> Inl e
                   | Inr translation \<Rightarrow>
                       Inr (if translation \<noteq> titleKey
                            then ?s1\<lparr>document_title := translation\<rparr> else ?s1))))"
    unfolding applyTranslations_def apply_pass_map sum.case ns Let_def ..
  have id: "?s1 = s\<lparr>nodes := ?ns, document_title := document_title s\<rparr>" by simp
  show ?thesis
  proof (cases "filter (\<lambda>n. is_title n \<and> data_i18n n \<noteq> None) ?ns")
    case Nil
    with a id show ?thesis by (simp add: translated_title_def)
  next
    case (Cons titleEl rest)
    show ?thesis
    proof (cases "data_i18n titleEl")
      case None
      with a Cons id show ?thesis by (simp add: translated_title_def)
    next
      case (Some titleKey)
      with a Cons id show ?thesis
        by (simp add: translated_title_def t_refines_t_spec)
    qed
  qed
qed

lemma translated_title_cong:
  assumes "currentLang s' = currentLang s" and "translationTrees s' = translationTrees s"
    and "nodes s' = nodes s"
  shows "translated_title env s' old = translated_title env s old"
  unfolding translated_title_def assms(3) t_spec_cong[OF assms(1,2)] ..

lemma setLanguage_supported:
  assumes sup: "lang \<in> set supportedLanguages"
    and cache: "map_of (cache s) lang = Some c"
    and room: "storage_size (AList.update ''meadowmath-lang'' lang (entries (storage s)))
                 \<le> capacity (storage s)"
  shows "\<exists>s'. setLanguage env server lang s = (s', Fulfilled)
     \<and> currentLang s' = lang
     \<and> localStorage_getItem ''meadowmath-lang'' (storage s') = Some lang
     \<and> html_lang s' = lang
     \<and> dispatched s' = dispatched s @ [(''languageChanged'', lang)]
     \<and> requests s' = requests s @ uncached_urls s lang
     \<and> nodes s' = map (translate_node env s') (nodes s)
     \<and> entries (storage s')
         = AList.update ''meadowmath-lang'' lang (entries (storage s))
     \<and> own_or_undefined (translationTrees s') lang = loaded_tree server s lang
     \<and> (\<forall>l. l \<noteq> lang \<longrightarrow> map_of (translationTrees s') l = map_of (translationTrees s) l)
     \<and> (\<forall>name. cached s' lang name = loaded_cache server s lang name)
     \<and> (\<forall>l. l \<noteq> lang \<longrightarrow> map_of (cache s') l = map_of (cache s) l)
     \<and> document_title s' = translated_title env s' (document_title s)"
proof -
  let ?st = "(storage s)\<lparr>entries := AList.update ''meadowmath-lang'' lang (entries (storage s))\<rparr>"
  let ?s2 = "s\<lparr>currentLang := lang, storage := ?st, html_lang := lang\<rparr>"
  have set: "localStorage_setItem ''meadowmath-lang'' lang (storage (s\<lparr>currentLang := lang\<rparr>)) = Inr ?st"
    using room by (simp add: localStorage_setItem_def Let_def)
  have c2: "map_of (cache ?s2) lang = Some c" using cache by simp
  have bp2: "getBasePath ?s2 = getBasePath s" by (simp add: getBasePath_def)
  have tr2: "translationTrees ?s2 = translationTrees s" by simp
  have b2: "language_bundle server ?s2 lang name = language_bundle server s lang name" for name
    using cache by (simp add: language_bundle_def bp2)
  have "\<exists>s3 c'. loadCommon server lang ?s2 = (s3, Fulfilled)
     \<and> currentLang s3 = lang \<and> storage s3 = ?st \<and> html_lang s3 = lang
     \<and> dispatched s3 = dispatched s \<and> nodes s3 = nodes s \<and> pathname s3 = pathname s
     \<and> isFileProtocol s3 = isFileProtocol s \<and> document_title s3 = document_title s
     \<and> requests s3 = requests s
          @ (if truthy (own_or_undefined c ''common'') then []
             else [getBasePath s @ ''/'' @ lang @ ''/common.json''])
     \<and> map_of (cache s3) lang = Some c'
     \<and> (\<forall>k. own_or_undefined c' k =
            (if k = ''common''
             then (case language_bundle server s lang ''common'' of
                     Some data \<Rightarrow> data
                   | None \<Rightarrow> own_or_undefined c k)
             else own_or_undefined c k))
     \<and> (\<forall>l. l \<noteq> lang \<longrightarrow> map_of (cache s3) l = map_of (cache s) l)
     \<and> own_or_undefined (translationTrees s3) lang =
          (case language_bundle server s lang ''common'' of
             Some data \<Rightarrow> JObject (spread data)
           | None \<Rightarrow>
               if truthy (own_or_undefined (translationTrees s) lang)
               then own_or_undefined (translationTrees s) lang
               else JObject [])
     \<and> (\<forall>l. l \<noteq> lang \<longrightarrow> map_of (translationTrees s3) l = map_of (translationTrees s) l)"
    using loadCommon_effects[OF c2, of server] unfolding b2 bp2 tr2 by simp
  then obtain s3 c' where s3:
    "loadCommon server lang ?s2 = (s3, Fulfilled)"
    "currentLang s3 = lang" "storage s3 = ?st" "html_lang s3 = lang"
    "dispatched s3 = dispatched s" "nodes s3 = nodes s" "pathname s3 = pathname s"
    "isFileProtocol s3 = isFileProtocol s" "document_title s3 = document_title s"
    "requests s3 = requests s
          @ (if truthy (own_or_undefined c ''common'') then []
             else [getBasePath s @ ''/'' @ lang @ ''/common.json''])"
    "map_of (cache s3) lang = Some c'"
    and c': "\<forall>k. own_or_undefined c' k =
            (if k = ''common''
             then (case language_bundle server s lang ''common'' of
                     Some data \<Rightarrow> data
                   | None \<Rightarrow> own_or_undefined c k)
             else own_or_undefined c k)"
    and co3: "\<forall>l. l \<noteq> lang \<longrightarrow> map_of (cache s3) l = map_of (cache s) l"
    and t3: "own_or_undefined (translationTrees s3) lang =
          (case language_bundle server s lang ''common'' of
             Some data \<Rightarrow> JObject (spread data)
           | None \<Rightarrow>
               if truthy (own_or_undefined (translationTrees s) lang)
               then own_or_undefined (translationTrees s) lang
               else JObject [])"
    and to3: "\<forall>l. l \<noteq> lang \<longrightarrow> map_of (translationTrees s3) l = map_of (translationTrees s) l"
    by blast
  have bp3: "getBasePath s3 = getBasePath s" using s3(7,8) by (simp add: getBasePath_def)
  have det: "detectCurrentSection s3 = detectCurrentSection s"
    using s3(7) by (simp add: detectCurrentSection_def)
  obtain s4 where s4:
    "(case detectCurrentSection s3 of None \<Rightarrow> (s3, Fulfilled)
      | Some sectionName \<Rightarrow> loadSection server lang sectionName s3) = (s4, Fulfilled)"
    "currentLang s4 = lang" "storage s4 = ?st" "html_lang s4 = lang"
    "dispatched s4 = dispatched s" "nodes s4 = nodes s"
    "document_title s4 = document_title s"
    "requests s4 = requests s @ uncached_urls s lang"
    and t4: "own_or_undefined (translationTrees s4) lang = loaded_tree server s lang"
    and to4: "\<forall>l. l \<noteq> lang \<longrightarrow> map_of (translationTrees s4) l = map_of (translationTrees s) l"
    and c4: "\<forall>name. cached s4 lang name = loaded_cache server s lang name"
    and co4: "\<forall>l. l \<noteq> lang \<longrightarrow> map_of (cache s4) l = map_of (cache s) l"
  proof (cases "detectCurrentSection s")
    case None
    have "cached s3 lang name = loaded_cache server s lang name" for name
      using s3(11) c'[rule_format, of name] cache None
      by (simp add: cached_def loaded_cache_def)
    moreover have "own_or_undefined (translationTrees s3) lang = loaded_tree server s lang"
      using t3 None by (simp add: loaded_tree_def)
    ultimately show ?thesis
      using s3 det cache None to3 co3 that[of s3]
      by (simp add: uncached_urls_def)
  next
    case (Some sec)
    have nc: "sec \<noteq> ''common''" by (rule detected_section_not_common[OF Some])
    have csec: "own_or_undefined c' sec = own_or_undefined c sec"
      using c'[rule_format, of sec] nc by simp
    have b3: "language_bundle server s3 lang sec = language_bundle server s lang sec"
      by (rule language_bundle_cong[OF s3(11) cache csec s3(8) s3(7)])
    from loadSection_effects[OF s3(11), of server sec] obtain s4 c'' where l:
      "loadSection server lang sec s3 = (s4, Fulfilled)"
      "currentLang s4 = currentLang s3" "storage s4 = storage s3" "html_lang s4 = html_lang s3"
      "dispatched s4 = dispatched s3" "nodes s4 = nodes s3"
      "document_title s4 = document_title s3"
      "requests s4 = requests s3
          @ (if truthy (own_or_undefined c' sec) then []
             else [getBasePath s3 @ ''/'' @ lang @ ''/'' @ sec @ ''.json''])"
      "map_of (cache s4) lang = Some c''"
      and c'': "\<forall>k. own_or_undefined c'' k =
            (if k = sec
             then (case language_bundle server s3 lang sec of
                     Some data \<Rightarrow> data
                   | None \<Rightarrow> own_or_undefined c' k)
             else own_or_undefined c' k)"
      and co: "\<forall>l. l \<noteq> lang \<longrightarrow> map_of (cache s4) l = map_of (cache s3) l"
      and t4: "own_or_undefined (translationTrees s4) lang =
          (case language_bundle server s3 lang sec of
             Some data \<Rightarrow>
               JObject (AList.update ''section'' data
                          (spread (own_or_undefined (translationTrees s3) lang)))
           | None \<Rightarrow> own_or_undefined (translationTrees s3) lang)"
      and to: "\<forall>l. l \<noteq> lang \<longrightarrow> map_of (translationTrees s4) l = map_of (translationTrees s3) l"
      by blast
    have tree: "own_or_undefined (translationTrees s4) lang = loaded_tree server s lang"
      unfolding t4 t3 b3 by (simp add: loaded_tree_def Some Let_def)
    have ca: "cached s4 lang name = loaded_cache server s lang name" for name
      using l(9) c''[rule_format, of name] c'[rule_format, of name] cache Some nc csec
      by (auto simp add: cached_def loaded_cache_def b3 split: option.splits)
    show ?thesis
      using l(1-8) s3 det bp3 cache Some csec tree ca to to3 co co3 that[of s4]
      by (simp add: uncached_urls_def)
  qed
  let ?s5 = "s4\<lparr>nodes := map (translate_node env s4) (nodes s4),
               document_title :=
                 translated_title env (s4\<lparr>nodes := map (translate_node env s4) (nodes s4)\<rparr>)
                   (document_title s4)\<rparr>"
  let ?s' = "?s5\<lparr>dispatched := dispatched ?s5 @ [(''languageChanged'', lang)]\<rparr>"
  have res: "setLanguage env server lang s = (?s', Fulfilled)"
    using sup set s3(1) s4(1) applyTranslations_result[of env s4]
    by (simp add: setLanguage_def Let_def and_then_def)
  have tn: "translate_node env ?s' = translate_node env s4"
    by (rule translate_node_cong) simp_all
  have tt: "translated_title env ?s' old
      = translated_title env (s4\<lparr>nodes := map (translate_node env s4) (nodes s4)\<rparr>) old" for old
    by (rule translated_title_cong) simp_all
  have "currentLang ?s' = lang" using s4 by simp
  moreover have "localStorage_getItem ''meadowmath-lang'' (storage ?s') = Some lang"
    using s4 by (simp add: localStorage_getItem_def update_conv')
  moreover have "html_lang ?s' = lang" using s4 by simp
  moreover have "dispatched ?s' = dispatched s @ [(''languageChanged'', lang)]" using s4 by simp
  moreover have "requests ?s' = requests s @ uncached_urls s lang" using s4 by simp
  moreover have "nodes ?s' = map (translate_node env ?s') (nodes s)"
    using s4 tn by simp
  moreover have "entries (storage ?s')
         = AList.update ''meadowmath-lang'' lang (entries (storage s))"
    using s4 by simp
  moreover have "own_or_undefined (translationTrees ?s') lang = loaded_tree server s lang"
    using t4 by simp
  moreover have "\<forall>l. l \<noteq> lang \<longrightarrow> map_of (translationTrees ?s') l = map_of (translationTrees s) l"
    using to4 by simp
  moreover have "\<forall>name. cached ?s' lang name = loaded_cache server s lang name"
    using c4 by (simp add: cached_def)
  moreover have "\<forall>l. l \<noteq> lang \<longrightarrow> map_of (cache ?s') l = map_of (cache s) l"
    using co4 by simp
  moreover have "document_title ?s' = translated_title env ?s' (document_title s)"
    unfolding tt using s4(7) by simp
  ultimately show ?thesis using res by blast
qed

text \<open>
  C3 (as the code has it). \<open>setLanguage\<close> with an unsupported language only logs a
  warning. It has no test for the language already being active: that test is in the
  language buttons' click handler, which does nothing for the active language. With a
  supported language, the active one included, \<open>setLanguage\<close> makes it the active language
  and writes the preference to the store. If the store refuses the write, the call is
  rejected there, with nothing but the active language changed. If the catalog's cache
  has no entry for the language (the object literal makes one for each supported
  language and nothing removes it), the call is rejected at the first read of the cache.
  Otherwise it completes: the language is persisted and set on the document; its common
  bundle and the bundle of the page's section are taken from the cache, or requested
  when not cached and then cached; the language's tree is rebuilt from them and the
  other languages' trees and cache entries are untouched; every marked element and the
  document title are translated from the new tree; and \<open>languageChanged\<close> is dispatched.
\<close>

theorem setLanguage_effects:
  "(lang \<notin> set supportedLanguages \<longrightarrow>
      setLanguage env server lang s
        = (s\<lparr>console := console s @ [''Language \"'' @ lang @ ''\" not supported'']\<rparr>, Fulfilled))
   \<and> lang_button_click env server (currentLang s) s = (s, Fulfilled)
   \<and> (lang \<in> set supportedLanguages
        \<and> capacity (storage s)
            < storage_size (AList.update ''meadowmath-lang'' lang (entries (storage s))) \<longrightarrow>
       setLanguage env server lang s = (s\<lparr>currentLang := lang\<rparr>, Rejected QuotaExceededError))
   \<and> (lang \<in> set supportedLanguages
        \<and> storage_size (AList.update ''meadowmath-lang'' lang (entries (storage s)))
             \<le> capacity (storage s)
        \<and> map_of (cache s) lang = None \<longrightarrow>
       setLanguage env server lang s
         = (s\<lparr>currentLang := lang,
               storage := (storage s)\<lparr>entries :=
                 AList.update ''meadowmath-lang'' lang (entries (storage s))\<rparr>,
               html_lang := lang\<rparr>, Rejected TypeError))
   \<and> (lang \<in> set supportedLanguages
        \<and> storage_size (AList.update ''meadowmath-lang'' lang (entries (storage s)))
             \<le> capacity (storage s)
        \<and> map_of (cache s) lang \<noteq> None \<longrightarrow>
       (\<exists>s'. setLanguage env server lang s = (s', Fulfilled)
          \<and> currentLang s' = lang
          \<and> localStorage_getItem ''meadowmath-lang'' (storage s') = Some lang
          \<and> html_lang s' = lang
          \<and> requests s' = requests s @ uncached_urls s lang
          \<and> (\<forall>name. cached s' lang name = loaded_cache server s lang name)
          \<and> (\<forall>l. l \<noteq> lang \<longrightarrow> map_of (cache s') l = map_of (cache s) l)
          \<and> own_or_undefined (translationTrees s') lang = loaded_tree server s lang
          \<and> (\<forall>l. l \<noteq> lang \<longrightarrow> map_of (translationTrees s') l = map_of (translationTrees s) l)
          \<and> nodes s' = map (translate_node env s') (nodes s)
          \<and> document_title s' = translated_title env s' (document_title s)
          \<and> dispatched s' = dispatched s @ [(''languageChanged'', lang)]))"
proof (intro conjI impI)
  assume "lang \<notin> set supportedLanguages"
  then show "setLanguage env server lang s
        = (s\<lparr>console := console s @ [''Language \"'' @ lang @ ''\" not supported'']\<rparr>, Fulfilled)"
    by (simp add: setLanguage_def)
next
  show "lang_button_click env server (currentLang s) s = (s, Fulfilled)"
    by (simp add: lang_button_click_def)
next
  assume "lang \<in> set supportedLanguages
        \<and> capacity (storage s)
            < storage_size (AList.update ''meadowmath-lang'' lang (entries (storage s)))"
  then show "setLanguage env server lang s = (s\<lparr>currentLang := lang\<rparr>, Rejected QuotaExceededError)"
    by (simp add: setLanguage_def localStorage_setItem_def Let_def)
next
  assume "lang \<in> set supportedLanguages
        \<and> storage_size (AList.update ''meadowmath-lang'' lang (entries (storage s)))
             \<le> capacity (storage s)
        \<and> map_of (cache s) lang = None"
  then show "setLanguage env server lang s
         = (s\<lparr>currentLang := lang,
               storage := (storage s)\<lparr>entries :=
                 AList.update ''meadowmath-lang'' lang (entries (storage s))\<rparr>,
               html_lang := lang\<rparr>, Rejected TypeError)"
    by (simp add: setLanguage_def localStorage_setItem_def Let_def loadCommon_def and_then_def)
next
  assume a: "lang \<in> set supportedLanguages
        \<and> storage_size (AList.update ''meadowmath-lang'' lang (entries (storage s)))
             \<le> capacity (storage s)
        \<and> map_of (cache s) lang \<noteq> None"
  then obtain c where "map_of (cache s) lang = Some c" by blast
  with a show "\<exists>s'. setLanguage env server lang s = (s', Fulfilled)
          \<and> currentLang s' = lang
          \<and> localStorage_getItem ''meadowmath-lang'' (storage s') = Some lang
          \<and> html_lang s' = lang
          \<and> requests s' = requests s @ uncached_urls s lang
          \<and> (\<forall>name. cached s' lang name = loaded_cache server s lang name)
          \<and> (\<forall>l. l \<noteq> lang \<longrightarrow> map_of (cache s') l = map_of (cache s) l)
          \<and> own_or_undefined (translationTrees s') lang = loaded_tree server s lang
          \<and> (\<forall>l. l \<noteq> lang \<longrightarrow> map_of (translationTrees s') l = map_of (translationTrees s) l)
          \<and> nodes s' = map (translate_node env s') (nodes s)
          \<and> document_title s' = translated_title env s' (document_title s)
          \<and> dispatched s' = dispatched s @ [(''languageChanged'', lang)]"
    using setLanguage_supported[of lang s c env server] by blast
qed

lemma language_tree_own:
  assumes "own_or_undefined (translationTrees s) l = v" and "v \<noteq> JUndefined"
  shows "language_tree env s l = v"
  using assms by (auto simp add: language_tree_def own_or_undefined_def split: option.splits)

lemma prek_page_en_fields:
  "currentLang prek_page_en = ''en''"
  "cache prek_page_en = [(''en'', [(''common'', en_common), (''prek'', en_prek)]), (''vi'', [])]"
  "storage prek_page_en = \<lparr>entries = [], capacity = 5000\<rparr>"
  "dispatched prek_page_en = []"
  "requests prek_page_en = []"
  "console prek_page_en = []"
  "pathname prek_page_en = ''/prek/index.html''"
  "isFileProtocol prek_page_en = False"
  "nodes prek_page_en = [heading]"
  "document_title prek_page_en = ''Meadow Math''"
  "translationTrees prek_page_en =
     [(''en'', JObject [(''nav'', JObject [(''home'', JString ''Home'')]), (''section'', en_prek)])]"
  by (simp_all add: prek_page_en_def blank_page_def)

lemma prek_page_en_section: "detectCurrentSection prek_page_en = Some ''prek''"
  by (simp add: detectCurrentSection_def prek_page_en_fields sections_def toLowerCase_def
      lower_char_def startsWith_def endsWith_def)

theorem setLanguage_effects_witness:
  "''fr'' \<notin> set supportedLanguages
   \<and> setLanguage es5_env meadow_server ''fr'' prek_page_en
       = (prek_page_en\<lparr>console := [''Language \"fr\" not supported'']\<rparr>, Fulfilled)
   \<and> lang_button_click es5_env meadow_server ''en'' prek_page_en = (prek_page_en, Fulfilled)
   \<and> ''vi'' \<in> set supportedLanguages
   \<and> capacity (storage prek_page_full_store)
        < storage_size (AList.update ''meadowmath-lang'' ''vi'' (entries (storage prek_page_full_store)))
   \<and> setLanguage es5_env meadow_server ''vi'' prek_page_full_store
       = (prek_page_full_store\<lparr>currentLang := ''vi''\<rparr>, Rejected QuotaExceededError)
   \<and> storage_size (AList.update ''meadowmath-lang'' ''vi'' (entries (storage prek_page_no_cache)))
        \<le> capacity (storage prek_page_no_cache)
   \<and> map_of (cache prek_page_no_cache) ''vi'' = None
   \<and> snd (setLanguage es5_env meadow_server ''vi'' prek_page_no_cache) = Rejected TypeError
   \<and> storage_size (AList.update ''meadowmath-lang'' ''vi'' (entries (storage prek_page_en)))
        \<le> capacity (storage prek_page_en)
   \<and> map_of (cache prek_page_en) ''vi'' \<noteq> None
   \<and> (\<exists>s'. setLanguage es5_env meadow_server ''vi'' prek_page_en = (s', Fulfilled)
          \<and> currentLang s' = ''vi''
          \<and> localStorage_getItem ''meadowmath-lang'' (storage s') = Some ''vi''
          \<and> html_lang s' = ''vi''
          \<and> requests s' = [''/lang/vi/common.json'', ''/lang/vi/prek.json'']
          \<and> cached s' ''vi'' ''common'' = vi_common
          \<and> cached s' ''vi'' ''prek'' = vi_prek
          \<and> map_of (cache s') ''en'' = Some [(''common'', en_common), (''prek'', en_prek)]
          \<and> own_or_undefined (translationTrees s') ''vi''
               = JObject [(''nav'', JObject [(''home'', JString ''Trang chu'')]),
                          (''section'', vi_prek)]
          \<and> map_of (translationTrees s') ''en''
               = Some (JObject [(''nav'', JObject [(''home'', JString ''Home'')]),
                                (''section'', en_prek)])
          \<and> nodes s' = [heading\<lparr>node_text := ''Trang chu''\<rparr>]
          \<and> document_title s' = ''Meadow Math''
          \<and> dispatched s' = [(''languageChanged'', ''vi'')])"
proof -
  have fr: "''fr'' \<notin> set supportedLanguages" by (simp add: supportedLanguages_def)
  have vi: "''vi'' \<in> set supportedLanguages" by (simp add: supportedLanguages_def)
  have c: "map_of (cache prek_page_en) ''vi'' \<noteq> None" by (simp add: prek_page_en_fields)
  have r: "storage_size (AList.update ''meadowmath-lang'' ''vi'' (entries (storage prek_page_en)))
        \<le> capacity (storage prek_page_en)"
    by (simp add: prek_page_en_fields storage_size_def)
  have full: "capacity (storage prek_page_full_store)
        < storage_size (AList.update ''meadowmath-lang'' ''vi'' (entries (storage prek_page_full_store)))"
    by (simp add: prek_page_full_store_def storage_size_def)
  have nc: "map_of (cache prek_page_no_cache) ''vi'' = None"
    "storage_size (AList.update ''meadowmath-lang'' ''vi'' (entries (storage prek_page_no_cache)))
        \<le> capacity (storage prek_page_no_cache)"
    by (simp_all add: prek_page_no_cache_def prek_page_en_fields storage_size_def)
  have bp: "getBasePath prek_page_en = ''/lang''"
    by (simp add: getBasePath_def prek_page_en_fields)
  have u: "uncached_urls prek_page_en ''vi'' = [''/lang/vi/common.json'', ''/lang/vi/prek.json'']"
    by (simp add: uncached_urls_def prek_page_en_fields prek_page_en_section bp
        own_or_undefined_def)
  have b: "language_bundle meadow_server prek_page_en ''vi'' ''common'' = Some vi_common"
    "language_bundle meadow_server prek_page_en ''vi'' ''prek'' = Some vi_prek"
    by (simp_all add: language_bundle_def prek_page_en_fields bp own_or_undefined_def
        meadow_server_def)
  have lt: "loaded_tree meadow_server prek_page_en ''vi''
      = JObject [(''nav'', JObject [(''home'', JString ''Trang chu'')]), (''section'', vi_prek)]"
    by (simp add: loaded_tree_def b prek_page_en_section vi_common_def)
  have lc: "loaded_cache meadow_server prek_page_en ''vi'' ''common'' = vi_common"
    "loaded_cache meadow_server prek_page_en ''vi'' ''prek'' = vi_prek"
    by (simp_all add: loaded_cache_def b prek_page_en_section prek_page_en_fields)
  note a = setLanguage_effects[where lang = "''fr''" and env = es5_env
      and server = meadow_server and s = prek_page_en]
  note f = setLanguage_effects[where lang = "''vi''" and env = es5_env
      and server = meadow_server and s = prek_page_full_store]
  note n = setLanguage_effects[where lang = "''vi''" and env = es5_env
      and server = meadow_server and s = prek_page_no_cache]
  note e = setLanguage_effects[where lang = "''vi''" and env = es5_env
      and server = meadow_server and s = prek_page_en]
  from a fr have 1: "setLanguage es5_env meadow_server ''fr'' prek_page_en
       = (prek_page_en\<lparr>console := [''Language \"fr\" not supported'']\<rparr>, Fulfilled)"
    by (simp add: prek_page_en_fields)
  from a have 2: "lang_button_click es5_env meadow_server ''en'' prek_page_en = (prek_page_en, Fulfilled)"
    by (simp add: prek_page_en_fields)
  from f vi full have 3: "setLanguage es5_env meadow_server ''vi'' prek_page_full_store
       = (prek_page_full_store\<lparr>currentLang := ''vi''\<rparr>, Rejected QuotaExceededError)"
    by blast
  from n vi nc have 4: "snd (setLanguage es5_env meadow_server ''vi'' prek_page_no_cache) = Rejected TypeError"
    by simp
  from e vi c r obtain s' where s':
    "setLanguage es5_env meadow_server ''vi'' prek_page_en = (s', Fulfilled)"
    "currentLang s' = ''vi''"
    "localStorage_getItem ''meadowmath-lang'' (storage s') = Some ''vi''"
    "html_lang s' = ''vi''"
    "requests s' = requests prek_page_en @ uncached_urls prek_page_en ''vi''"
    "\<forall>name. cached s' ''vi'' name = loaded_cache meadow_server prek_page_en ''vi'' name"
    "\<forall>l. l \<noteq> ''vi'' \<longrightarrow> map_of (cache s') l = map_of (cache prek_page_en) l"
    "own_or_undefined (translationTrees s') ''vi'' = loaded_tree meadow_server prek_page_en ''vi''"
    "\<forall>l. l \<noteq> ''vi'' \<longrightarrow> map_of (translationTrees s') l = map_of (translationTrees prek_page_en) l"
    "nodes s' = map (translate_node es5_env s') (nodes prek_page_en)"
    "document_title s' = translated_title es5_env s' (document_title prek_page_en)"
    "dispatched s' = dispatched prek_page_en @ [(''languageChanged'', ''vi'')]"
    by blast
  have tree: "language_tree es5_env s' ''vi''
      = JObject [(''nav'', JObject [(''home'', JString ''Trang chu'')]), (''section'', vi_prek)]"
    by (rule language_tree_own) (simp_all add: s'(8) lt)
  have tr: "t_spec es5_env s' ''nav.home'' = ''Trang chu''"
    by (simp add: t_spec_def s'(2) tree t_result_def)
  have nodes: "nodes s' = [heading\<lparr>node_text := ''Trang chu''\<rparr>]"
    by (simp add: s'(10) prek_page_en_fields translate_node_def translate_attr_def tr heading_def)
  have title: "document_title s' = ''Meadow Math''"
    by (simp add: s'(11) translated_title_def nodes heading_def prek_page_en_fields)
  have 5: "\<exists>s'. setLanguage es5_env meadow_server ''vi'' prek_page_en = (s', Fulfilled)
          \<and> currentLang s' = ''vi''
          \<and> localStorage_getItem ''meadowmath-lang'' (storage s') = Some ''vi''
          \<and> html_lang s' = ''vi''
          \<and> requests s' = [''/lang/vi/common.json'', ''/lang/vi/prek.json'']
          \<and> cached s' ''vi'' ''common'' = vi_common
          \<and> cached s' ''vi'' ''prek'' = vi_prek
          \<and> map_of (cache s') ''en'' = Some [(''common'', en_common), (''prek'', en_prek)]
          \<and> own_or_undefined (translationTrees s') ''vi''
               = JObject [(''nav'', JObject [(''home'', JString ''Trang chu'')]),
                          (''section'', vi_prek)]
          \<and> map_of (translationTrees s') ''en''
               = Some (JObject [(''nav'', JObject [(''home'', JString ''Home'')]),
                                (''section'', en_prek)])
          \<and> nodes s' = [heading\<lparr>node_text := ''Trang chu''\<rparr>]
          \<and> document_title s' = ''Meadow Math''
          \<and> dispatched s' = [(''languageChanged'', ''vi'')]"
    using s'(1-4) s'(5,6,7,8,9,12) nodes title
    by (simp add: prek_page_en_fields u lc lt)
  from fr 1 2 vi full 3 nc 4 r c 5 show ?thesis by blast
qed

text \<open>
  C3 (as stated) fails: called with the language that is already active, \<open>setLanguage\<close>
  is no no-op. On an English page it writes the preference to storage and dispatches
  \<open>languageChanged\<close> again.
\<close>

theorem setLanguage_active_counterexample:
  "currentLang prek_page_en = ''en''
   \<and> dispatched prek_page_en = []
   \<and> entries (storage prek_page_en) = []
   \<and> snd (setLanguage es5_env meadow_server ''en'' prek_page_en) = Fulfilled
   \<and> dispatched (fst (setLanguage es5_env meadow_server ''en'' prek_page_en))
       = [(''languageChanged'', ''en'')]
   \<and> entries (storage (fst (setLanguage es5_env meadow_server ''en'' prek_page_en)))
       = [(''meadowmath-lang'', ''en'')]"
proof -
  have en: "''en'' \<in> set supportedLanguages" by (simp add: supportedLanguages_def)
  have c: "map_of (cache prek_page_en) ''en'' = Some [(''common'', en_common), (''prek'', en_prek)]"
    by (simp add: prek_page_en_fields)
  have r: "storage_size (AList.update ''meadowmath-lang'' ''en'' (entries (storage prek_page_en)))
        \<le> capacity (storage prek_page_en)"
    by (simp add: prek_page_en_fields storage_size_def)
  from setLanguage_supported[OF en c r, of es5_env meadow_server] obtain s' where s':
    "setLanguage es5_env meadow_server ''en'' prek_page_en = (s', Fulfilled)"
    "dispatched s' = dispatched prek_page_en @ [(''languageChanged'', ''en'')]"
    "entries (storage s')
         = AList.update ''meadowmath-lang'' ''en'' (entries (storage prek_page_en))"
    by blast
  then show ?thesis by (simp add: prek_page_en_fields)
qed

text \<open>
  C6. The \<open>i18n\<close> object has no \<open>getRaw\<close>: not among its own properties, and not
  inherited. The read \<open>window.i18n?.getRaw\<close> in the Pre-K page gives \<open>undefined\<close>, so the
  optional call never runs and the content it was to fetch is \<open>undefined\<close>.
\<close>

theorem getRaw_undefined:
  "js_get es5_env (i18n_object s) ''getRaw'' = Inr JUndefined"
  by (simp add: i18n_object_def i18n_methods_def es5_env_def)

section \<open>Verification: the completion summary\<close>

subsection \<open>Rounding to the nearest double\<close>

lemma bitlen_powi_bounds:
  assumes "0 < p"
  shows "(2::rat) powi (bitlen p - 1) \<le> of_int p" and "of_int p < (2::rat) powi (bitlen p)"
proof -
  from bitlen_bounds[OF assms] have a: "2 ^ nat (bitlen p - 1) \<le> p" and b: "p < 2 ^ nat (bitlen p)"
    by auto
  have pos: "0 < bitlen p"
  proof (rule ccontr)
    assume "\<not> 0 < bitlen p"
    then have "nat (bitlen p) = 0" by simp
    with b assms show False by simp
  qed
  have "(2::rat) powi (bitlen p - 1) = 2 ^ nat (bitlen p - 1)"
    using pos by (simp add: power_int_def)
  also have "\<dots> = of_int (2 ^ nat (bitlen p - 1))" by simp
  also have "\<dots> \<le> of_int p" using a by (simp only: of_int_le_iff)
  finally show "(2::rat) powi (bitlen p - 1) \<le> of_int p" .
  have "(of_int p :: rat) < of_int (2 ^ nat (bitlen p))" using b by (simp only: of_int_less_iff)
  also have "\<dots> = 2 powi (bitlen p)" using pos by (simp add: power_int_def)
  finally show "of_int p < (2::rat) powi (bitlen p)" .
qed

lemma ilog2_bounds:
  assumes "0 < x"
  shows "2 powi (ilog2 x) \<le> x" and "x < 2 powi (ilog2 x + 1)"
proof -
  obtain p q where pq: "quotient_of x = (p, q)" by (cases "quotient_of x")
  then have q: "0 < q" and x: "x = of_int p / of_int q"
    by (auto dest: quotient_of_denom_pos quotient_of_div)
  from assms x q have p: "0 < p" by (simp add: zero_less_divide_iff)
  let ?d = "bitlen p - bitlen q"
  note bp = bitlen_powi_bounds[OF p] and bq = bitlen_powi_bounds[OF q]
  have qpos: "(0::rat) < of_int q" using q by simp
  have lo: "(2::rat) powi (?d - 1) \<le> x"
  proof -
    have "(2::rat) powi (?d - 1) * of_int q \<le> 2 powi (?d - 1) * 2 powi (bitlen q)"
      using bq(2) by (intro mult_left_mono) auto
    also have "\<dots> = 2 powi (bitlen p - 1)"
      by (simp flip: power_int_add)
    also have "\<dots> \<le> of_int p" by (rule bp(1))
    finally show ?thesis using qpos by (simp add: x pos_le_divide_eq)
  qed
  have hi: "x < (2::rat) powi (?d + 1)"
  proof -
    have "(of_int p :: rat) < 2 powi (bitlen p)" by (rule bp(2))
    also have "\<dots> = 2 powi (?d + 1) * 2 powi (bitlen q - 1)"
      by (simp flip: power_int_add)
    also have "\<dots> \<le> 2 powi (?d + 1) * of_int q"
      using bq(1) by (intro mult_left_mono) auto
    finally show ?thesis using qpos by (simp add: x pos_divide_less_eq)
  qed
  show "2 powi (ilog2 x) \<le> x" using lo by (simp add: ilog2_def pq Let_def)
  show "x < 2 powi (ilog2 x + 1)" using hi by (auto simp add: ilog2_def pq Let_def not_le)
qed

lemma ilog2_unique:
  assumes "2 powi k \<le> x" and "x < 2 powi (k + 1)"
  shows "ilog2 x = k"
proof -
  have pos: "0 < x" using assms(1) by (rule less_le_trans[rotated]) simp
  note b = ilog2_bounds[OF pos]
  have "\<not> ilog2 x < k"
  proof
    assume "ilog2 x < k"
    then have "(2::rat) powi (ilog2 x + 1) \<le> 2 powi k"
      by (intro power_int_increasing) auto
    with b(2) assms(1) show False by simp
  qed
  moreover have "\<not> k < ilog2 x"
  proof
    assume "k < ilog2 x"
    then have "(2::rat) powi (k + 1) \<le> 2 powi (ilog2 x)"
      by (intro power_int_increasing) auto
    with b(1) assms(2) show False by simp
  qed
  ultimately show ?thesis by simp
qed

lemma ilog2_mono:
  assumes "0 < x" and "x \<le> y"
  shows "ilog2 x \<le> ilog2 y"
proof (rule ccontr)
  assume "\<not> ilog2 x \<le> ilog2 y"
  then have "(2::rat) powi (ilog2 y + 1) \<le> 2 powi (ilog2 x)"
    by (intro power_int_increasing) auto
  moreover have "0 < y" using assms by simp
  ultimately show False
    using ilog2_bounds(1)[OF assms(1)] ilog2_bounds(2)[OF \<open>0 < y\<close>] assms(2) by simp
qed

lemma round_even_of_int [simp]: "round_even (of_int k) = k"
  by (simp add: round_even_def)

lemma round_even_bounds: "\<lfloor>x\<rfloor> \<le> round_even x" "round_even x \<le> \<lfloor>x\<rfloor> + 1"
  by (simp_all add: round_even_def Let_def)

lemma round_even_mono:
  assumes "x \<le> y"
  shows "round_even x \<le> round_even y"
proof (cases "\<lfloor>x\<rfloor> = \<lfloor>y\<rfloor>")
  case True
  with assms show ?thesis by (auto simp add: round_even_def Let_def)
next
  case False
  with assms have "\<lfloor>x\<rfloor> + 1 \<le> \<lfloor>y\<rfloor>" using floor_mono[OF assms] by simp
  with round_even_bounds(2)[of x] round_even_bounds(1)[of y] show ?thesis by simp
qed

lemma round_even_ge_int: "of_int k \<le> x \<Longrightarrow> k \<le> round_even x"
  using round_even_mono[of "of_int k" x] by simp

lemma round_even_le_int: "x \<le> of_int k \<Longrightarrow> round_even x \<le> k"
  using round_even_mono[of x "of_int k"] by simp

lemma fl_eq:
  assumes "2 ^ 52 \<le> x / 2 powi e" and "x / 2 powi e < 2 ^ 53"
  shows "fl x = of_int (round_even (x / 2 powi e)) * 2 powi e"
proof -
  have p: "(0::rat) < 2 powi e" by simp
  have a: "2 powi (e + 52) \<le> x"
    using assms(1) p by (simp add: pos_le_divide_eq power_int_add mult.commute)
  have b: "x < 2 powi (e + 52 + 1)"
    using assms(2) p by (simp add: pos_divide_less_eq power_int_add mult.commute)
  have pos: "0 < x" using a by (rule less_le_trans[rotated]) simp
  have "ilog2 x = e + 52" by (rule ilog2_unique[OF a b])
  with pos show ?thesis by (simp add: fl_def Let_def)
qed

lemma fl_mantissa:
  assumes "0 < x"
  shows "2 ^ 52 \<le> x / 2 powi (ilog2 x - 52)" and "x / 2 powi (ilog2 x - 52) < 2 ^ 53"
proof -
  have p: "(0::rat) < 2 powi (ilog2 x - 52)" by simp
  have e: "(2::rat) powi (ilog2 x) = 2 ^ 52 * 2 powi (ilog2 x - 52)"
    "(2::rat) powi (ilog2 x + 1) = 2 ^ 53 * 2 powi (ilog2 x - 52)"
    by (simp_all add: power_int_diff power_int_add)
  show "2 ^ 52 \<le> x / 2 powi (ilog2 x - 52)"
    using ilog2_bounds(1)[OF assms] unfolding e(1) using p by (simp add: pos_le_divide_eq)
  show "x / 2 powi (ilog2 x - 52) < 2 ^ 53"
    using ilog2_bounds(2)[OF assms] unfolding e(2) using p by (simp add: pos_divide_less_eq)
qed

lemma fl_nonneg: "0 \<le> x \<Longrightarrow> 0 \<le> fl x"
proof (cases "x = 0")
  case True
  then show ?thesis by (simp add: fl_def)
next
  case False
  assume "0 \<le> x"
  with False have pos: "0 < x" by simp
  have "(2::int) ^ 52 \<le> round_even (x / 2 powi (ilog2 x - 52))"
    using fl_mantissa(1)[OF pos] by (intro round_even_ge_int) simp
  then have "0 \<le> round_even (x / 2 powi (ilog2 x - 52))" by simp
  with pos show ?thesis by (simp add: fl_def Let_def)
qed

lemma fl_mono:
  assumes "0 \<le> x" and "x \<le> y"
  shows "fl x \<le> fl y"
proof (cases "x = 0")
  case True
  with assms fl_nonneg[of y] show ?thesis by (simp add: fl_def)
next
  case False
  with assms have x: "0 < x" and y: "0 < y" by simp_all
  let ?ex = "ilog2 x - 52" and ?ey = "ilog2 y - 52"
  have fx: "fl x = of_int (round_even (x / 2 powi ?ex)) * 2 powi ?ex"
    and fy: "fl y = of_int (round_even (y / 2 powi ?ey)) * 2 powi ?ey"
    using x y by (simp_all add: fl_def Let_def)
  have le: "?ex \<le> ?ey" using ilog2_mono[OF x assms(2)] by simp
  show ?thesis
  proof (cases "?ex = ?ey")
    case True
    have "x / 2 powi ?ey \<le> y / 2 powi ?ey" using assms(2) by (simp add: divide_right_mono)
    then have "round_even (x / 2 powi ?ey) \<le> round_even (y / 2 powi ?ey)"
      by (rule round_even_mono)
    then have "(of_int (round_even (x / 2 powi ?ey)) :: rat) \<le> of_int (round_even (y / 2 powi ?ey))"
      by (simp only: of_int_le_iff)
    then show ?thesis unfolding fx fy True by (intro mult_right_mono) auto
  next
    case False
    with le have lt: "?ex + 1 \<le> ?ey" by simp
    have "round_even (x / 2 powi ?ex) \<le> 2 ^ 53"
      using fl_mantissa(2)[OF x] by (intro round_even_le_int) simp
    then have "(of_int (round_even (x / 2 powi ?ex)) :: rat) \<le> of_int (2 ^ 53)"
      by (simp only: of_int_le_iff)
    then have "fl x \<le> 2 ^ 53 * 2 powi ?ex"
      unfolding fx by (intro mult_right_mono) auto
    also have "\<dots> = 2 ^ 52 * 2 powi (?ex + 1)"
    proof -
      have "(2::rat) powi (?ex + 1) = 2 powi ?ex * 2" by (subst power_int_add) simp_all
      then show ?thesis by simp
    qed
    also have "\<dots> \<le> 2 ^ 52 * 2 powi ?ey"
      using lt by (intro mult_left_mono power_int_increasing) auto
    also have "\<dots> \<le> of_int (round_even (y / 2 powi ?ey)) * 2 powi ?ey"
    proof -
      have "(2::int) ^ 52 \<le> round_even (y / 2 powi ?ey)"
        using fl_mantissa(1)[OF y] by (intro round_even_ge_int) simp
      then have "(of_int (2 ^ 52) :: rat) \<le> of_int (round_even (y / 2 powi ?ey))"
        by (simp only: of_int_le_iff)
      then show ?thesis by (intro mult_right_mono) auto
    qed
    finally show ?thesis unfolding fy .
  qed
qed


lemma rounded_percent_mono:
  assumes "0 \<le> x" and "x \<le> y"
  shows "rounded_percent x \<le> rounded_percent y"
proof -
  have "fl x \<le> fl y" by (rule fl_mono[OF assms])
  moreover have "0 \<le> fl x" by (rule fl_nonneg[OF assms(1)])
  ultimately have "fl (fl x * 100) \<le> fl (fl y * 100)"
    by (intro fl_mono) simp_all
  then show ?thesis unfolding rounded_percent_def by (intro floor_mono) simp
qed

lemma percentage_rounded:
  "0 < totalRounds s \<Longrightarrow>
   percentage s
     = Finite (of_int (rounded_percent (of_nat (correctCount' s) / of_nat (totalRounds s))))"
  by (simp add: percentage_def js_div_def rounded_percent_def)

lemma fraction_below:
  fixes c n a b N :: nat
  assumes "0 < n" and "n \<le> N" and "0 < b" and "b * c < a * n"
  shows "(of_nat c / of_nat n :: rat) \<le> of_nat a / of_nat b - 1 / (of_nat b * of_nat N)"
proof -
  have N: "0 < N" using assms(1,2) by simp
  from assms(4) have "b * c + 1 \<le> a * n" by simp
  then have "(of_nat (b * c + 1) :: rat) \<le> of_nat (a * n)" by (simp only: of_nat_le_iff)
  then have 1: "(of_nat b * of_nat c + 1 :: rat) \<le> of_nat a * of_nat n" by simp
  have "(1 / of_nat N :: rat) \<le> 1 / of_nat n"
    using assms(1,2) by (simp add: frac_le)
  have "(of_nat c / of_nat n :: rat) = (of_nat b * of_nat c) / (of_nat b * of_nat n)"
    using assms(3) by simp
  also have "\<dots> \<le> (of_nat a * of_nat n - 1) / (of_nat b * of_nat n)"
    using 1 assms(1,3) by (intro divide_right_mono) simp_all
  also have "\<dots> = of_nat a / of_nat b - 1 / (of_nat b * of_nat n)"
    using assms(1,3) by (simp add: diff_divide_distrib)
  also have "\<dots> \<le> of_nat a / of_nat b - 1 / (of_nat b * of_nat N)"
    using assms(1,2,3) N by (simp add: frac_le)
  finally show ?thesis .
qed

lemma fraction_above:
  fixes c n a b N :: nat
  assumes "0 < n" and "n \<le> N" and "0 < b" and "a * n < b * c"
  shows "(of_nat a / of_nat b + 1 / (of_nat b * of_nat N) :: rat) \<le> of_nat c / of_nat n"
proof -
  have N: "0 < N" using assms(1,2) by simp
  from assms(4) have "a * n + 1 \<le> b * c" by simp
  then have "(of_nat (a * n + 1) :: rat) \<le> of_nat (b * c)" by (simp only: of_nat_le_iff)
  then have 1: "(of_nat a * of_nat n + 1 :: rat) \<le> of_nat b * of_nat c" by simp
  have "(of_nat a / of_nat b + 1 / (of_nat b * of_nat N) :: rat)
      \<le> of_nat a / of_nat b + 1 / (of_nat b * of_nat n)"
    using assms(1,2,3) N by (simp add: frac_le)
  also have "\<dots> = (of_nat a * of_nat n + 1) / (of_nat b * of_nat n)"
    using assms(1,3) by (simp add: add_divide_distrib)
  also have "\<dots> \<le> (of_nat b * of_nat c) / (of_nat b * of_nat n)"
    using 1 assms(1,3) by (intro divide_right_mono) simp_all
  also have "\<dots> = of_nat c / of_nat n" using assms(3) by simp
  finally show ?thesis .
qed

lemma fraction_ge:
  fixes c n a b :: nat
  assumes "0 < n" and "0 < b"
  shows "((of_nat a / of_nat b :: rat) \<le> of_nat c / of_nat n) = (a * n \<le> b * c)"
proof -
  have "((of_nat a / of_nat b :: rat) \<le> of_nat c / of_nat n)
      = ((of_nat a * of_nat n :: rat) \<le> of_nat b * of_nat c)"
    using assms by (simp add: field_simps)
  also have "\<dots> = ((of_nat (a * n) :: rat) \<le> of_nat (b * c))" by simp
  also have "\<dots> = (a * n \<le> b * c)" by (simp only: of_nat_le_iff)
  finally show ?thesis .
qed

text \<open>Thresholds of the rounded percentage, from its values at two points.\<close>

lemma rounded_percent_threshold:
  fixes c n a :: nat
  assumes "0 < n" and "n \<le> 2 ^ 40"
    and hi: "k \<le> rounded_percent (of_nat a / 200)"
    and lo: "rounded_percent (of_nat a / 200 - margin 200) < k"
  shows "(k \<le> rounded_percent (of_nat c / of_nat n)) = (a * n \<le> 200 * c)"
proof (cases "a * n \<le> 200 * c")
  case True
  then have "(of_nat a / of_nat 200 :: rat) \<le> of_nat c / of_nat n"
    using fraction_ge[of n 200 a c] assms(1) by simp
  then have "rounded_percent (of_nat a / 200) \<le> rounded_percent (of_nat c / of_nat n)"
    by (intro rounded_percent_mono) simp_all
  with hi True show ?thesis by simp
next
  case False
  then have "200 * c < a * n" by simp
  from fraction_below[OF assms(1,2) _ this]
  have "(of_nat c / of_nat n :: rat) \<le> of_nat a / 200 - margin 200" by (simp add: margin_def)
  then have "rounded_percent (of_nat c / of_nat n)
      \<le> rounded_percent (of_nat a / 200 - margin 200)"
    by (intro rounded_percent_mono) simp_all
  with lo False show ?thesis by simp
qed

lemma rounded_percent_threshold_strict:
  fixes c n a :: nat
  assumes "0 < n" and "n \<le> 2 ^ 40"
    and hi: "k \<le> rounded_percent (of_nat a / 200 + margin 200)"
    and lo: "rounded_percent (of_nat a / 200) < k"
  shows "(k \<le> rounded_percent (of_nat c / of_nat n)) = (a * n < 200 * c)"
proof (cases "a * n < 200 * c")
  case True
  from fraction_above[OF assms(1,2) _ this]
  have "(of_nat a / 200 + margin 200 :: rat) \<le> of_nat c / of_nat n" by (simp add: margin_def)
  then have "rounded_percent (of_nat a / 200 + margin 200)
      \<le> rounded_percent (of_nat c / of_nat n)"
    by (intro rounded_percent_mono) (simp_all add: margin_def)
  with hi True show ?thesis by simp
next
  case False
  then have "200 * c \<le> a * n" by simp
  then have "(of_nat c / of_nat n :: rat) \<le> of_nat a / of_nat 200"
    using fraction_ge[of 200 n c a] assms(1) by (simp add: mult.commute)
  then have "rounded_percent (of_nat c / of_nat n) \<le> rounded_percent (of_nat a / 200)"
    by (intro rounded_percent_mono) simp_all
  with lo False show ?thesis by simp
qed

lemma rounded_percent_values:
  "rounded_percent (159 / 200) = 80"
  "rounded_percent (159 / 200 - margin 200) = 79"
  "rounded_percent (119 / 200) = 60"
  "rounded_percent (119 / 200 - margin 200) = 59"
  "rounded_percent (199 / 200) = 100"
  "rounded_percent (199 / 200 - margin 200) = 99"
  "rounded_percent (201 / 200) = 100"
  "rounded_percent (201 / 200 + margin 200) = 101"
  by code_simp+


lemma rational_ge:
  fixes c n a b :: nat
  assumes "0 < n" and "0 < b"
  shows "(a * n \<le> b * c) = ((of_nat a / of_nat b :: rat) \<le> of_nat c / of_nat n)"
  by (rule fraction_ge[OF assms, symmetric])

lemma percentage_ge_80:
  assumes "0 < totalRounds s" and "totalRounds s \<le> 2 ^ 40"
  shows "js_ge (percentage s) 80
         = (159 / 200 \<le> (of_nat (correctCount' s) / of_nat (totalRounds s) :: rat))"
proof -
  have "(80 \<le> rounded_percent (of_nat (correctCount' s) / of_nat (totalRounds s)))
        = (159 * totalRounds s \<le> 200 * correctCount' s)"
    by (rule rounded_percent_threshold[OF assms]) (simp_all add: rounded_percent_values)
  then show ?thesis
    using assms(1) rational_ge[OF assms(1), of 200 159 "correctCount' s"]
    by (simp add: percentage_rounded)
qed

lemma percentage_ge_60:
  assumes "0 < totalRounds s" and "totalRounds s \<le> 2 ^ 40"
  shows "js_ge (percentage s) 60
         = (119 / 200 \<le> (of_nat (correctCount' s) / of_nat (totalRounds s) :: rat))"
proof -
  have "(60 \<le> rounded_percent (of_nat (correctCount' s) / of_nat (totalRounds s)))
        = (119 * totalRounds s \<le> 200 * correctCount' s)"
    by (rule rounded_percent_threshold[OF assms]) (simp_all add: rounded_percent_values)
  then show ?thesis
    using assms(1) rational_ge[OF assms(1), of 200 119 "correctCount' s"]
    by (simp add: percentage_rounded)
qed

lemma percentage_eq_100:
  assumes "0 < totalRounds s" and "totalRounds s \<le> 2 ^ 40"
  shows "js_eq (percentage s) 100
         = (199 / 200 \<le> (of_nat (correctCount' s) / of_nat (totalRounds s) :: rat)
            \<and> (of_nat (correctCount' s) / of_nat (totalRounds s) :: rat) \<le> 201 / 200)"
proof -
  let ?c = "correctCount' s" and ?n = "totalRounds s"
  have a: "(100 \<le> rounded_percent (of_nat ?c / of_nat ?n)) = (199 * ?n \<le> 200 * ?c)"
    by (rule rounded_percent_threshold[OF assms]) (simp_all add: rounded_percent_values)
  have b: "(101 \<le> rounded_percent (of_nat ?c / of_nat ?n)) = (201 * ?n < 200 * ?c)"
    by (rule rounded_percent_threshold_strict[OF assms]) (simp_all add: rounded_percent_values)
  have u: "(200 * ?c \<le> 201 * ?n) = ((of_nat ?c / of_nat ?n :: rat) \<le> 201 / 200)"
    using rational_ge[of 200 ?n ?c 201] assms(1) by (simp add: mult.commute)
  have "js_eq (percentage s) 100 = (rounded_percent (of_nat ?c / of_nat ?n) = 100)"
    using assms(1) by (simp add: percentage_rounded)
  also have "\<dots> = (100 \<le> rounded_percent (of_nat ?c / of_nat ?n)
                    \<and> \<not> 101 \<le> rounded_percent (of_nat ?c / of_nat ?n))"
    by auto
  also have "\<dots> = (199 * ?n \<le> 200 * ?c \<and> 200 * ?c \<le> 201 * ?n)"
    unfolding a b by auto
  also have "\<dots> = (199 / 200 \<le> (of_nat ?c / of_nat ?n :: rat)
                    \<and> (of_nat ?c / of_nat ?n :: rat) \<le> 201 / 200)"
    unfolding u using rational_ge[OF assms(1), of 200 199 ?c] by simp
  finally show ?thesis .
qed

text \<open>The quotient itself against the literals 0.8 and 0.6.\<close>

lemma quotient_threshold:
  fixes c n a :: nat
  assumes "0 < n" and "n \<le> 2 ^ 40"
    and lo: "fl (of_nat a / 5 - margin 5) < fl (of_nat a / 5)"
  shows "js_ge (js_div c n) (fl (of_nat a / 5)) = ((of_nat a / 5 :: rat) \<le> of_nat c / of_nat n)"
proof (cases "a * n \<le> 5 * c")
  case True
  then have le: "(of_nat a / of_nat 5 :: rat) \<le> of_nat c / of_nat n"
    using fraction_ge[of n 5 a c] assms(1) by simp
  then have "fl (of_nat a / 5) \<le> fl (of_nat c / of_nat n)"
    by (intro fl_mono) simp_all
  with le assms(1) show ?thesis by (simp add: js_div_def)
next
  case False
  then have nle: "\<not> (of_nat a / of_nat 5 :: rat) \<le> of_nat c / of_nat n"
    using fraction_ge[of n 5 a c] assms(1) by simp
  from False have "5 * c < a * n" by simp
  from fraction_below[OF assms(1,2) _ this]
  have "(of_nat c / of_nat n :: rat) \<le> of_nat a / 5 - margin 5" by (simp add: margin_def)
  then have "fl (of_nat c / of_nat n) \<le> fl (of_nat a / 5 - margin 5)"
    by (intro fl_mono) simp_all
  with lo nle assms(1) show ?thesis by (simp add: js_div_def)
qed

lemma literal_values:
  "fl (8 / 10) = 7205759403792794 / 2 ^ 53"
  "fl (6 / 10) = 5404319552844595 / 2 ^ 53"
  "fl (4 / 5 - margin 5) < fl (4 / 5)"
  "fl (3 / 5 - margin 5) < fl (3 / 5)"
  by code_simp+

lemma quotient_ge_literals:
  assumes "0 < n" and "n \<le> 2 ^ 40"
  shows "js_ge (js_div c n) (fl (4 / 5)) = (4 / 5 \<le> (of_nat c / of_nat n :: rat))"
    and "js_ge (js_div c n) (fl (3 / 5)) = (3 / 5 \<le> (of_nat c / of_nat n :: rat))"
  using quotient_threshold[OF assms, of 4 c] quotient_threshold[OF assms, of 3 c]
  by (simp_all add: literal_values)

subsection \<open>Completion tiers\<close>

lemma updateStatsMessage_result:
  assumes "statsMessage' s = Some el"
  shows "updateStatsMessage env win s =
     Inr (s\<lparr>statsMessage' := Some (el\<lparr>textContent :=
            (if js_eq (percentage s) 100
               then level_message env win s ''perfect'' ''Perfect! You're amazing!''
             else if js_ge (percentage s) 80
               then level_message env win s ''great'' ''Great job! You're really good at this!''
             else if js_ge (percentage s) 60
               then level_message env win s ''good'' ''Good work! Keep practicing!''
             else level_message env win s ''keepPracticing''
                    ''Keep practicing! You're improving!'')\<rparr>)\<rparr>)"
proof (cases win)
  case None
  with assms show ?thesis
    by (simp add: updateStatsMessage_def Let_def level_message_def getDefaultStatsMessage_def
        split: option.splits)
next
  case (Some catalog)
  show ?thesis
  proof (cases "activityId s = []")
    case True
    with assms Some show ?thesis
      by (simp add: updateStatsMessage_def Let_def level_message_def getDefaultStatsMessage_def
          message_key_def)
  next
    case False
    with assms Some show ?thesis
      by (simp add: updateStatsMessage_def Let_def level_message_def getDefaultStatsMessage_def
          message_key_def t_refines_t_spec)
  qed
qed

lemma percentage_cong:
  "correctCount' s' = correctCount' s \<Longrightarrow> totalRounds s' = totalRounds s \<Longrightarrow>
   percentage s' = percentage s"
  by (simp add: percentage_def)

lemma level_message_cong:
  "activityId s' = activityId s \<Longrightarrow>
   level_message env win s' level generic = level_message env win s level generic"
  by (simp add: level_message_def split: option.splits)

lemma showStats'_result:
  assumes "statsOverlay' s = Some ov" and "statsIcon' s = Some ic" and "statsMessage' s = Some me"
  shows "\<exists>s'. showStats' env win s = Inr s'
     \<and> map_option textContent (statsIcon' s')
         = Some (if js_ge (percentage s) 80 then icon_star
                 else if js_ge (percentage s) 60 then icon_party
                 else icon_thumbs)
     \<and> map_option textContent (statsMessage' s')
         = Some (if js_eq (percentage s) 100
                   then level_message env win s ''perfect'' ''Perfect! You're amazing!''
                 else if js_ge (percentage s) 80
                   then level_message env win s ''great'' ''Great job! You're really good at this!''
                 else if js_ge (percentage s) 60
                   then level_message env win s ''good'' ''Good work! Keep practicing!''
                 else level_message env win s ''keepPracticing''
                        ''Keep practicing! You're improving!'')
     \<and> map_option classList (statsOverlay' s') = Some (classList (classList_add ''show'' ov))"
proof -
  let ?s2 = "s\<lparr>statCorrect := set_text (show_nat (correctCount' s)) (statCorrect s),
               statIncorrect := set_text (show_nat (incorrectCount s)) (statIncorrect s)\<rparr>"
  have p2: "percentage ?s2 = percentage s" by (rule percentage_cong) simp_all
  have p3: "percentage (?s2\<lparr>statsIcon' := x\<rparr>) = percentage s" for x
    by (rule percentage_cong) simp_all
  have l3: "level_message env win (?s2\<lparr>statsIcon' := x\<rparr>) level generic
      = level_message env win s level generic" for x level generic
    by (rule level_message_cong) simp
  have m3: "statsMessage' (?s2\<lparr>statsIcon' := x\<rparr>) = Some me" for x
    using assms(3) by simp
  have d: "updateStatsDisplay env win ?s2
      = updateStatsMessage env win
          (?s2\<lparr>statsIcon' := Some (ic\<lparr>textContent :=
               (if js_ge (percentage s) 80 then icon_star
                else if js_ge (percentage s) 60 then icon_party else icon_thumbs)\<rparr>)\<rparr>)"
    using assms(2) by (simp add: updateStatsDisplay_def Let_def p2)
  show ?thesis
    using assms(1)
    unfolding showStats'_def Let_def
    by (simp add: d updateStatsMessage_result[OF m3] p3 l3)
qed

lemma icons_distinct:
  "icon_star \<noteq> icon_party" "icon_star \<noteq> icon_thumbs" "icon_party \<noteq> icon_thumbs"
  "icon_party \<noteq> icon_star" "icon_thumbs \<noteq> icon_star" "icon_thumbs \<noteq> icon_party"
  by (simp_all add: icon_star_def icon_party_def icon_thumbs_def)

lemma showStats_result:
  assumes "statsOverlay s = Some ov" and "statsIcon s = Some ic" and "statsMessage s = Some me"
  shows "map_option textContent (statsIcon (showStats s))
           = Some (if js_ge (js_div (correctCount s) (maxRounds s)) (fl (8 / 10)) then icon_star
                   else if js_ge (js_div (correctCount s) (maxRounds s)) (fl (6 / 10))
                     then icon_party
                   else icon_thumbs)"
    and "map_option textContent (statsMessage (showStats s))
           = Some (if js_ge (js_div (correctCount s) (maxRounds s)) (fl (8 / 10))
                     then ''Amazing! You did great!''
                   else if js_ge (js_div (correctCount s) (maxRounds s)) (fl (6 / 10))
                     then ''Great job!''
                   else ''Good effort! Try again!'')"
  using assms
  by (simp_all add: showStats_def Let_def set_text_def getStatsMessage_def messages_def)

text \<open>
  C4 (as the code has it). Two classes show a completion summary, and they draw the
  tiers differently. Up to \<open>2\<^sup>4\<^sup>0\<close> rounds, on a page that has the summary elements:
  the Pre-K class (\<open>maxRounds\<close>) compares the quotient \<open>correctCount / maxRounds\<close> with 0.8
  and 0.6, and shows the star and "Amazing! You did great!" exactly when the quotient is
  at least 4/5, the party popper and "Great job!" exactly when it is at least 3/5 and
  below 4/5, the thumbs-up and "Good effort! Try again!" exactly when it is below 3/5.
  The unified class (\<open>totalRounds\<close>) compares the percentage rounded to a whole number
  with 80 and 60: it shows the star exactly when the quotient is at least 159/200, the
  party popper exactly when it is at least 119/200 and below 159/200, the thumbs-up
  exactly when it is below 119/200; its message is the "perfect" one when the quotient
  lies between 199/200 and 201/200, else the "great", "good" or "keep practicing" one
  by the same bounds as the icon, each the catalog's translation for the activity or
  the generic text.
\<close>

theorem showStats_tier:
  "(statsOverlay s = Some ov \<and> statsIcon s = Some ic \<and> statsMessage s = Some me
      \<and> 0 < maxRounds s \<and> maxRounds s \<le> 2 ^ 40 \<longrightarrow>
      ((map_option textContent (statsIcon (showStats s)) = Some icon_star
          \<and> map_option textContent (statsMessage (showStats s)) = Some ''Amazing! You did great!'')
        = (8 / 10 \<le> (of_nat (correctCount s) / of_nat (maxRounds s) :: rat)))
      \<and> ((map_option textContent (statsIcon (showStats s)) = Some icon_party
            \<and> map_option textContent (statsMessage (showStats s)) = Some ''Great job!'')
          = (6 / 10 \<le> (of_nat (correctCount s) / of_nat (maxRounds s) :: rat)
             \<and> (of_nat (correctCount s) / of_nat (maxRounds s) :: rat) < 8 / 10))
      \<and> ((map_option textContent (statsIcon (showStats s)) = Some icon_thumbs
            \<and> map_option textContent (statsMessage (showStats s)) = Some ''Good effort! Try again!'')
          = ((of_nat (correctCount s) / of_nat (maxRounds s) :: rat) < 6 / 10)))
   \<and> (statsOverlay' u = Some ov' \<and> statsIcon' u = Some ic' \<and> statsMessage' u = Some me'
      \<and> 0 < totalRounds u \<and> totalRounds u \<le> 2 ^ 40 \<longrightarrow>
      (\<exists>u'. showStats' env win u = Inr u'
         \<and> (map_option textContent (statsIcon' u') = Some icon_star)
             = (159 / 200 \<le> (of_nat (correctCount' u) / of_nat (totalRounds u) :: rat))
         \<and> (map_option textContent (statsIcon' u') = Some icon_party)
             = (119 / 200 \<le> (of_nat (correctCount' u) / of_nat (totalRounds u) :: rat)
                \<and> (of_nat (correctCount' u) / of_nat (totalRounds u) :: rat) < 159 / 200)
         \<and> (map_option textContent (statsIcon' u') = Some icon_thumbs)
             = ((of_nat (correctCount' u) / of_nat (totalRounds u) :: rat) < 119 / 200)
         \<and> map_option textContent (statsMessage' u')
             = Some (if 199 / 200 \<le> (of_nat (correctCount' u) / of_nat (totalRounds u) :: rat)
                        \<and> (of_nat (correctCount' u) / of_nat (totalRounds u) :: rat) \<le> 201 / 200
                       then level_message env win u ''perfect'' ''Perfect! You're amazing!''
                     else if 159 / 200 \<le> (of_nat (correctCount' u) / of_nat (totalRounds u) :: rat)
                       then level_message env win u ''great''
                              ''Great job! You're really good at this!''
                     else if 119 / 200 \<le> (of_nat (correctCount' u) / of_nat (totalRounds u) :: rat)
                       then level_message env win u ''good'' ''Good work! Keep practicing!''
                     else level_message env win u ''keepPracticing''
                            ''Keep practicing! You're improving!'')))"
proof (intro conjI impI)
  assume a: "statsOverlay s = Some ov \<and> statsIcon s = Some ic \<and> statsMessage s = Some me
      \<and> 0 < maxRounds s \<and> maxRounds s \<le> 2 ^ 40"
  then have n: "0 < maxRounds s" "maxRounds s \<le> 2 ^ 40" by simp_all
  define q :: rat where "q = of_nat (correctCount s) / of_nat (maxRounds s)"
  define top where "top = js_ge (js_div (correctCount s) (maxRounds s)) (fl (8 / 10))"
  define mid where "mid = js_ge (js_div (correctCount s) (maxRounds s)) (fl (6 / 10))"
  have top: "top = (8 / 10 \<le> q)" and mid: "mid = (6 / 10 \<le> q)"
    using quotient_ge_literals[OF n, of "correctCount s"] by (simp_all add: top_def mid_def q_def)
  from a have e: "statsOverlay s = Some ov" "statsIcon s = Some ic" "statsMessage s = Some me"
    by simp_all
  note r = showStats_result[OF e, folded top_def mid_def]
  show "(map_option textContent (statsIcon (showStats s)) = Some icon_star
          \<and> map_option textContent (statsMessage (showStats s)) = Some ''Amazing! You did great!'')
        = (8 / 10 \<le> (of_nat (correctCount s) / of_nat (maxRounds s) :: rat))"
    unfolding r q_def[symmetric] top mid by (auto simp add: icons_distinct)
  show "(map_option textContent (statsIcon (showStats s)) = Some icon_party
            \<and> map_option textContent (statsMessage (showStats s)) = Some ''Great job!'')
          = (6 / 10 \<le> (of_nat (correctCount s) / of_nat (maxRounds s) :: rat)
             \<and> (of_nat (correctCount s) / of_nat (maxRounds s) :: rat) < 8 / 10)"
    unfolding r q_def[symmetric] top mid by (auto simp add: icons_distinct)
  show "(map_option textContent (statsIcon (showStats s)) = Some icon_thumbs
            \<and> map_option textContent (statsMessage (showStats s)) = Some ''Good effort! Try again!'')
          = ((of_nat (correctCount s) / of_nat (maxRounds s) :: rat) < 6 / 10)"
    unfolding r q_def[symmetric] top mid by (auto simp add: icons_distinct)
next
  assume a: "statsOverlay' u = Some ov' \<and> statsIcon' u = Some ic' \<and> statsMessage' u = Some me'
      \<and> 0 < totalRounds u \<and> totalRounds u \<le> 2 ^ 40"
  then have n: "0 < totalRounds u" "totalRounds u \<le> 2 ^ 40" by simp_all
  define q :: rat where "q = of_nat (correctCount' u) / of_nat (totalRounds u)"
  define top where "top = js_ge (percentage u) 80"
  define mid where "mid = js_ge (percentage u) 60"
  define full where "full = js_eq (percentage u) 100"
  have top: "top = (159 / 200 \<le> q)" and mid: "mid = (119 / 200 \<le> q)"
    and full: "full = (199 / 200 \<le> q \<and> q \<le> 201 / 200)"
    using percentage_ge_80[OF n] percentage_ge_60[OF n] percentage_eq_100[OF n]
    by (simp_all add: top_def mid_def full_def q_def)
  from a have e: "statsOverlay' u = Some ov'" "statsIcon' u = Some ic'"
    "statsMessage' u = Some me'"
    by simp_all
  from showStats'_result[OF e, of env win, folded top_def mid_def full_def]
  obtain u' where u':
    "showStats' env win u = Inr u'"
    "map_option textContent (statsIcon' u')
         = Some (if top then icon_star else if mid then icon_party else icon_thumbs)"
    "map_option textContent (statsMessage' u')
         = Some (if full
                   then level_message env win u ''perfect'' ''Perfect! You're amazing!''
                 else if top
                   then level_message env win u ''great'' ''Great job! You're really good at this!''
                 else if mid
                   then level_message env win u ''good'' ''Good work! Keep practicing!''
                 else level_message env win u ''keepPracticing''
                        ''Keep practicing! You're improving!'')"
    by blast
  show "\<exists>u'. showStats' env win u = Inr u'
         \<and> (map_option textContent (statsIcon' u') = Some icon_star)
             = (159 / 200 \<le> (of_nat (correctCount' u) / of_nat (totalRounds u) :: rat))
         \<and> (map_option textContent (statsIcon' u') = Some icon_party)
             = (119 / 200 \<le> (of_nat (correctCount' u) / of_nat (totalRounds u) :: rat)
                \<and> (of_nat (correctCount' u) / of_nat (totalRounds u) :: rat) < 159 / 200)
         \<and> (map_option textContent (statsIcon' u') = Some icon_thumbs)
             = ((of_nat (correctCount' u) / of_nat (totalRounds u) :: rat) < 119 / 200)
         \<and> map_option textContent (statsMessage' u')
             = Some (if 199 / 200 \<le> (of_nat (correctCount' u) / of_nat (totalRounds u) :: rat)
                        \<and> (of_nat (correctCount' u) / of_nat (totalRounds u) :: rat) \<le> 201 / 200
                       then level_message env win u ''perfect'' ''Perfect! You're amazing!''
                     else if 159 / 200 \<le> (of_nat (correctCount' u) / of_nat (totalRounds u) :: rat)
                       then level_message env win u ''great''
                              ''Great job! You're really good at this!''
                     else if 119 / 200 \<le> (of_nat (correctCount' u) / of_nat (totalRounds u) :: rat)
                       then level_message env win u ''good'' ''Good work! Keep practicing!''
                     else level_message env win u ''keepPracticing''
                            ''Keep practicing! You're improving!'')"
    unfolding q_def[symmetric]
    by (rule exI[of _ u']) (auto simp add: u' top mid full icons_distinct)
qed

lemma summary_page_fields:
  "statsOverlay' (summary_page n c) = Some blank_element"
  "statsIcon' (summary_page n c) = Some blank_element"
  "statsMessage' (summary_page n c) = Some blank_element"
  "totalRounds (summary_page n c) = n"
  "correctCount' (summary_page n c) = c"
  "activityId (summary_page n c) = []"
  by (simp_all add: summary_page_def)

theorem showStats_tier_witness:
  "map_option textContent (statsIcon (showStats ((page_activity 5)\<lparr>correctCount := 4\<rparr>)))
     = Some icon_star
   \<and> map_option textContent (statsIcon (showStats ((page_activity 5)\<lparr>correctCount := 3\<rparr>)))
     = Some icon_party
   \<and> map_option textContent (statsIcon (showStats ((page_activity 5)\<lparr>correctCount := 2\<rparr>)))
     = Some icon_thumbs
   \<and> (\<exists>u'. showStats' es5_env None (summary_page 5 5) = Inr u'
         \<and> map_option textContent (statsIcon' u') = Some icon_star
         \<and> map_option textContent (statsMessage' u') = Some ''Perfect! You're amazing!'')
   \<and> (\<exists>u'. showStats' es5_env None (summary_page 5 4) = Inr u'
         \<and> map_option textContent (statsIcon' u') = Some icon_star
         \<and> map_option textContent (statsMessage' u')
             = Some ''Great job! You're really good at this!'')
   \<and> (\<exists>u'. showStats' es5_env None (summary_page 5 3) = Inr u'
         \<and> map_option textContent (statsIcon' u') = Some icon_party
         \<and> map_option textContent (statsMessage' u') = Some ''Good work! Keep practicing!'')
   \<and> (\<exists>u'. showStats' es5_env None (summary_page 5 2) = Inr u'
         \<and> map_option textContent (statsIcon' u') = Some icon_thumbs
         \<and> map_option textContent (statsMessage' u')
             = Some ''Keep practicing! You're improving!'')"
proof -
  have h: "statsOverlay ((page_activity 5)\<lparr>correctCount := c\<rparr>) = Some blank_element"
    "statsIcon ((page_activity 5)\<lparr>correctCount := c\<rparr>) = Some blank_element"
    "statsMessage ((page_activity 5)\<lparr>correctCount := c\<rparr>) = Some blank_element"
    "maxRounds ((page_activity 5)\<lparr>correctCount := c\<rparr>) = 5" for c
    by (simp_all add: page_activity_def new_activity_def)
  note t = showStats_tier[where ov = blank_element and ic = blank_element and me = blank_element
      and ov' = blank_element and ic' = blank_element and me' = blank_element
      and env = es5_env and win = None]
  have 1: "map_option textContent (statsIcon (showStats ((page_activity 5)\<lparr>correctCount := 4\<rparr>)))
     = Some icon_star"
    and 5: "\<exists>u'. showStats' es5_env None (summary_page 5 4) = Inr u'
         \<and> map_option textContent (statsIcon' u') = Some icon_star
         \<and> map_option textContent (statsMessage' u')
             = Some ''Great job! You're really good at this!''"
    using t[where s = "(page_activity 5)\<lparr>correctCount := 4\<rparr>" and u = "summary_page 5 4"]
    by (auto simp add: h summary_page_fields level_message_def)
  have 2: "map_option textContent (statsIcon (showStats ((page_activity 5)\<lparr>correctCount := 3\<rparr>)))
     = Some icon_party"
    and 6: "\<exists>u'. showStats' es5_env None (summary_page 5 3) = Inr u'
         \<and> map_option textContent (statsIcon' u') = Some icon_party
         \<and> map_option textContent (statsMessage' u') = Some ''Good work! Keep practicing!''"
    using t[where s = "(page_activity 5)\<lparr>correctCount := 3\<rparr>" and u = "summary_page 5 3"]
    by (auto simp add: h summary_page_fields level_message_def)
  have 3: "map_option textContent (statsIcon (showStats ((page_activity 5)\<lparr>correctCount := 2\<rparr>)))
     = Some icon_thumbs"
    and 7: "\<exists>u'. showStats' es5_env None (summary_page 5 2) = Inr u'
         \<and> map_option textContent (statsIcon' u') = Some icon_thumbs
         \<and> map_option textContent (statsMessage' u')
             = Some ''Keep practicing! You're improving!''"
    using t[where s = "(page_activity 5)\<lparr>correctCount := 2\<rparr>" and u = "summary_page 5 2"]
    by (auto simp add: h summary_page_fields level_message_def)
  have 4: "\<exists>u'. showStats' es5_env None (summary_page 5 5) = Inr u'
         \<and> map_option textContent (statsIcon' u') = Some icon_star
         \<and> map_option textContent (statsMessage' u') = Some ''Perfect! You're amazing!''"
    using t[where s = "(page_activity 5)\<lparr>correctCount := 5\<rparr>" and u = "summary_page 5 5"]
    by (auto simp add: h summary_page_fields level_message_def)
  from 1 2 3 4 5 6 7 show ?thesis by blast
qed

text \<open>
  C4 (as stated) fails for the unified class: it rounds the percentage before it
  compares. With 35 of 44 rounds correct the quotient is below 0.8, the percentage
  79.5... is rounded to 80, and the summary shows the star and the "great" message; with
  25 of 42 the quotient is below 0.6 and the summary shows the party popper and the
  "good" message.
\<close>

theorem showStats_rounded_counterexample:
  "(of_nat 35 / of_nat 44 :: rat) < 8 / 10
   \<and> (\<exists>u'. showStats' es5_env None (summary_page 44 35) = Inr u'
         \<and> map_option textContent (statsIcon' u') = Some icon_star
         \<and> map_option textContent (statsMessage' u')
             = Some ''Great job! You're really good at this!'')
   \<and> (of_nat 25 / of_nat 42 :: rat) < 6 / 10
   \<and> (\<exists>u'. showStats' es5_env None (summary_page 42 25) = Inr u'
         \<and> map_option textContent (statsIcon' u') = Some icon_party
         \<and> map_option textContent (statsMessage' u') = Some ''Good work! Keep practicing!'')"
proof -
  have p: "percentage (summary_page 44 35) = Finite 80"
    "percentage (summary_page 42 25) = Finite 60"
    by (simp_all add: percentage_rounded summary_page_fields) code_simp+
  have a: "\<exists>u'. showStats' es5_env None (summary_page 44 35) = Inr u'
         \<and> map_option textContent (statsIcon' u') = Some icon_star
         \<and> map_option textContent (statsMessage' u')
             = Some ''Great job! You're really good at this!''"
    using showStats'_result[of "summary_page 44 35" blank_element blank_element blank_element
        es5_env None]
    by (auto simp add: summary_page_fields p level_message_def)
  have b: "\<exists>u'. showStats' es5_env None (summary_page 42 25) = Inr u'
         \<and> map_option textContent (statsIcon' u') = Some icon_party
         \<and> map_option textContent (statsMessage' u') = Some ''Good work! Keep practicing!''"
    using showStats'_result[of "summary_page 42 25" blank_element blank_element blank_element
        es5_env None]
    by (auto simp add: summary_page_fields p level_message_def)
  from a b show ?thesis by simp
qed

section \<open>Verification: the key-value store\<close>










section \<open>Verification: the Grade 2 page\<close>

lemma escapeHtml_no_angle:
  "CHR ''<'' \<notin> set (escapeHtml text) \<and> CHR ''>'' \<notin> set (escapeHtml text)"
  by (cases "text") (auto simp add: escapeHtml_def escape_char_def split: if_splits)

text \<open>
  C7. Titles, descriptions and the link path go through \<open>escapeHtml\<close>: a title holding
  \<open><script>\<close> reaches the card as \<open>&lt;script&gt;\<close>. The activity's \<open>id\<close> does not: it is
  put into the \<open>data-activity\<close> attribute as it is, so an id that closes the attribute
  and opens a \<open><script>\<close> element arrives in the markup unescaped.
\<close>

theorem card_id_not_escaped:
  "(case renderActivityCard es5_env None script_title_entry of
      Inl e \<Rightarrow> False
    | Inr html \<Rightarrow>
        js_includes html ''<h3 class=\"activity-title\">&lt;script&gt;alert(1)&lt;/script&gt;</h3>''
        \<and> \<not> js_includes html ''<script>'')
   \<and> (case renderActivityCard es5_env None script_id_entry of
      Inl e \<Rightarrow> False
    | Inr html \<Rightarrow>
        js_includes html ''data-activity=\"\"><script>alert(1)</script>\">'')"
  by code_simp

subsection \<open>Try at home\<close>

lemma split_on_absent: "c \<notin> set s \<Longrightarrow> split_on c s = [s]"
  by (induction s) (auto split: list.splits)

lemma dropWhile_hd: "s \<noteq> [] \<Longrightarrow> \<not> P (hd s) \<Longrightarrow> dropWhile P s = s"
  by (cases s) simp_all

lemma trim_fixed:
  assumes "s \<noteq> []" and "\<not> js_space (hd s)" and "\<not> js_space (last s)"
  shows "trim s = s"
proof -
  from assms have "dropWhile js_space s = s" by (simp add: dropWhile_hd)
  moreover from assms have "dropWhile js_space (rev s) = rev s"
    by (intro dropWhile_hd) (simp_all add: hd_rev)
  ultimately show ?thesis by (simp add: trim_def)
qed

text \<open>
  C8. A "try at home" line \<open>* **title** desc\<close> (the title free of \<open>*\<close>, any white
  space between the bold part and the description) closes the block before it, if any,
  and starts a block whose title is the bold segment and whose description is the rest
  of the line, formatted. A text that is this one line is parsed into that one block,
  and the function's result is the block rendered.
\<close>

theorem tryAtHome_bold_title:
  assumes title: "title \<noteq> []" "CHR ''*'' \<notin> set title" "CHR 0x0A \<notin> set title"
    and ws: "\<forall>c \<in> set ws. js_space c \<and> c \<noteq> CHR 0x0A"
    and desc: "desc \<noteq> []" "\<not> js_space (hd desc)" "\<not> js_space (last desc)"
      "\<forall>c \<in> set desc. \<not> line_terminator c"
  shows "tryAtHome_line (result, currentBlock) (''* **'' @ title @ ''**'' @ ws @ desc)
           = (case currentBlock of
                None \<Rightarrow> result
              | Some b \<Rightarrow> result @ [renderTryAtHomeBlock b],
              Some \<lparr>block_title = title, block_description = formatInlineMarkdown desc\<rparr>)
       \<and> tryAtHome_blocks (''* **'' @ title @ ''**'' @ ws @ desc)
           = ([], Some \<lparr>block_title = title, block_description = formatInlineMarkdown desc\<rparr>)
       \<and> parseTryAtHomeContent (''* **'' @ title @ ''**'' @ ws @ desc)
           = renderTryAtHomeBlock
               \<lparr>block_title = title, block_description = formatInlineMarkdown desc\<rparr>"
proof -
  let ?line = "''* **'' @ title @ ''**'' @ ws @ desc"
  let ?b = "\<lparr>block_title = title, block_description = formatInlineMarkdown desc\<rparr>"
  from desc(4) have dn: "CHR 0x0A \<notin> set desc" by (auto simp add: line_terminator_def)
  from ws have wn: "CHR 0x0A \<notin> set ws" by auto
  from title(3) wn dn have "CHR 0x0A \<notin> set ?line" by simp
  then have lines: "split_on (CHR 0x0A) ?line = [?line]" by (rule split_on_absent)
  have "last ?line = last desc" using desc(1) by simp
  then have tr: "trim ?line = ?line"
    using desc(3) by (intro trim_fixed) (simp_all add: js_space_def)
  have sw: "startsWith ?line ''* **''" by (simp add: startsWith_def)
  have d4: "drop 4 ?line = title @ ''**'' @ ws @ desc" by simp
  have tw: "takeWhile (\<lambda>x. x \<noteq> CHR ''*'') (title @ ''**'' @ ws @ desc) = title"
    using title(2) by (subst takeWhile_append2) auto
  have dw: "dropWhile (\<lambda>x. x \<noteq> CHR ''*'') (title @ ''**'' @ ws @ desc) = ''**'' @ ws @ desc"
    using title(2) by (subst dropWhile_append2) auto
  have rest: "dropWhile js_space (drop 2 (''**'' @ ws @ desc)) = desc"
    using ws desc(1,2) by (simp add: dropWhile_append2 dropWhile_hd)
  have nt: "\<not> list_ex line_terminator desc" using desc(4) by (simp add: list_ex_iff)
  have m: "match_title ?line = Some (title, Some desc)"
    unfolding match_title_def d4 tw dw rest Let_def
    using sw title(1) desc(1) nt by (simp add: startsWith_def)
  have st: "tryAtHome_line (r, cb) ?line
      = (case cb of None \<Rightarrow> r | Some b \<Rightarrow> r @ [renderTryAtHomeBlock b], Some ?b)" for r cb
    unfolding tryAtHome_line_def tr Let_def m using sw by simp
  then have bl: "tryAtHome_blocks ?line = ([], Some ?b)"
    unfolding tryAtHome_blocks_def lines by simp
  have "parseTryAtHomeContent ?line = renderTryAtHomeBlock ?b"
    unfolding parseTryAtHomeContent_def bl by simp
  with bl st show ?thesis by simp
qed

theorem tryAtHome_bold_title_witness:
  "tryAtHome_blocks ''* **Title** desc''
     = ([], Some \<lparr>block_title = ''Title'', block_description = ''desc''\<rparr>)
   \<and> parseTryAtHomeContent ''* **Title** desc''
     = renderTryAtHomeBlock \<lparr>block_title = ''Title'', block_description = ''desc''\<rparr>"
proof -
  have f: "formatInlineMarkdown ''desc'' = ''desc''" by code_simp
  have "tryAtHome_line ([], None) (''* **'' @ ''Title'' @ ''**'' @ '' '' @ ''desc'')
           = (case None of
                None \<Rightarrow> []
              | Some b \<Rightarrow> [] @ [renderTryAtHomeBlock b],
              Some \<lparr>block_title = ''Title'', block_description = formatInlineMarkdown ''desc''\<rparr>)
       \<and> tryAtHome_blocks (''* **'' @ ''Title'' @ ''**'' @ '' '' @ ''desc'')
           = ([], Some \<lparr>block_title = ''Title'', block_description = formatInlineMarkdown ''desc''\<rparr>)
       \<and> parseTryAtHomeContent (''* **'' @ ''Title'' @ ''**'' @ '' '' @ ''desc'')
           = renderTryAtHomeBlock
               \<lparr>block_title = ''Title'', block_description = formatInlineMarkdown ''desc''\<rparr>"
    by (rule tryAtHome_bold_title) (simp_all add: js_space_def line_terminator_def)
  then show ?thesis by (simp add: f)
qed

end
